theory Spec2Isabelle
  imports Main
begin

section \<open>Formatting helpers of the Go runtime\<close>

text \<open>
  \<^verbatim>\<open>fmt.Sprintf("%d", n)\<close> on a signed integer: the decimal digits, most significant
  first, with a leading minus sign for a negative number.
\<close>

definition digit_char :: "nat \<Rightarrow> char" where
  "digit_char d =
     (if d = 0 then CHR ''0'' else if d = 1 then CHR ''1'' else if d = 2 then CHR ''2''
      else if d = 3 then CHR ''3'' else if d = 4 then CHR ''4'' else if d = 5 then CHR ''5''
      else if d = 6 then CHR ''6'' else if d = 7 then CHR ''7'' else if d = 8 then CHR ''8''
      else CHR ''9'')"

function digits :: "nat \<Rightarrow> string" where
  "digits n = (if n < 10 then [digit_char n] else digits (n div 10) @ [digit_char (n mod 10)])"
  by pat_completeness auto
termination
  by (relation "measure (\<lambda>n. n)") auto

declare digits.simps [simp del]

definition fmt_d :: "int \<Rightarrow> string" where
  "fmt_d i = (if i < 0 then CHR ''-'' # digits (nat (- i)) else digits (nat i))"

section \<open>The cluster objects (k8s.io/api), as far as the package reads and writes them\<close>

text \<open>
  A Go \<^verbatim>\<open>map[string]string\<close> is either nil or a table. Reading and \<^verbatim>\<open>delete\<close> accept
  a nil map; assigning to an entry of a nil map is a run-time panic.
\<close>

type_synonym gomap = "(string \<Rightarrow> string option) option"

definition map_index :: "gomap \<Rightarrow> string \<Rightarrow> string option" where
  "map_index m k = (case m of None \<Rightarrow> None | Some f \<Rightarrow> f k)"

definition map_assign :: "gomap \<Rightarrow> string \<Rightarrow> string \<Rightarrow> gomap option" where
  "map_assign m k v = (case m of None \<Rightarrow> None | Some f \<Rightarrow> Some (Some (f(k \<mapsto> v))))"

definition map_delete :: "gomap \<Rightarrow> string \<Rightarrow> gomap" where
  "map_delete m k = (case m of None \<Rightarrow> None | Some f \<Rightarrow> Some (f(k := None)))"

definition map_len0 :: "gomap \<Rightarrow> bool" where
  "map_len0 m = (case m of None \<Rightarrow> True | Some f \<Rightarrow> f = Map.empty)"

record ObjectMeta =
  Name :: string
  ResourceVersion :: string
  Labels :: gomap
  Annotations :: gomap

datatype Toleration =
  Toleration (TolKey: string) (TolOperator: string) (TolValue: string) (TolEffect: string)

record Container =
  ContainerName :: string
  Image :: string
  VolumeMounts :: "string list"

record PodSpec =
  Containers :: "Container list"
  InitContainers :: "Container list"
  Volumes :: "string list"
  Tolerations :: "Toleration list"
  RunAsUser :: "int option"

record PodTemplateSpec =
  TemplateMeta :: ObjectMeta
  TemplateSpec :: PodSpec

record JobSpec =
  Selector :: "gomap option"
  Template :: PodTemplateSpec

record JobStatus =
  Active :: int
  Succeeded :: int
  Failed :: int
  StartTime :: "int option"
  CompletionTime :: "int option"

record Job =
  JobMeta :: ObjectMeta
  Spec :: JobSpec
  Status :: JobStatus

text \<open>The zero value \<^verbatim>\<open>batchv1.JobStatus{}\<close>.\<close>

definition JobStatus_zero :: JobStatus where
  "JobStatus_zero =
     \<lparr>Active = 0, Succeeded = 0, Failed = 0, StartTime = None, CompletionTime = None\<rparr>"

section \<open>The manifest types (pkg/model), as far as the package reads them\<close>

record Dev =
  DevName :: string
  DevNamespace :: string
  DevLabels :: gomap
  DevAnnotations :: gomap
  DevTolerations :: "Toleration list"
  DevContainer :: string
  DevImage :: string

record TranslationRule =
  RuleContainer :: string
  RuleImage :: string
  Marker :: string
  SecurityContext :: "int option"
  Secrets :: "string list"

text \<open>\<open>TJob\<close> is the pointer \<^verbatim>\<open>t.Job\<close>: an address of the object store below.\<close>

record Translation =
  TName :: string
  Interactive :: bool
  Version :: string
  TJob :: nat
  TAnnotations :: gomap
  TTolerations :: "Toleration list"
  Rules :: "TranslationRule list"

section \<open>Errors, panics and results\<close>

text \<open>
  The package builds its errors with \<^verbatim>\<open>fmt.Errorf\<close>; each constructor stands for one
  format string and carries that format's arguments:
  \<^item> \<open>ErrEmptyNamespace\<close>: \<^verbatim>\<open>empty namespace\<close>;
  \<^item> \<open>ErrNotFound sel\<close>: \<^verbatim>\<open>jobs for labels '%s' not found\<close>;
  \<^item> \<open>ErrAmbiguous n sel\<close>: \<^verbatim>\<open>Found '%d' jobs for labels '%s' instead of 1\<close>;
  \<^item> \<open>ErrContainerNotFound c j\<close>: \<^verbatim>\<open>Container '%s' not found in job '%s'\<close>;
  \<^item> \<open>ErrCreateFailed e\<close>: \<^verbatim>\<open>failed to create job: %w\<close>, wrapping the client's error.

  An error of the cluster client on the read path is passed on as it came (\<open>ErrApi\<close>).
  \<open>ErrCancelled\<close> is the cancellation error of the specification's taxonomy; no statement
  of the package builds it.
\<close>

type_synonym api_error = string

datatype error =
    ErrEmptyNamespace
  | ErrApi api_error
  | ErrNotFound string
  | ErrAmbiguous nat string
  | ErrContainerNotFound string string
  | ErrCreateFailed api_error
  | ErrCancelled

text \<open>
  The two run-time panics of the package: an assignment to an entry of a nil map, and a
  nil pointer dereference.
\<close>

datatype panic = NilMapAssign | NilDereference

datatype 'a result = Ok 'a | Err error | Panic panic

section \<open>Collaborators whose code is outside the package\<close>

text \<open>
  Package \<^verbatim>\<open>jobs\<close> calls helpers of \<^verbatim>\<open>pkg/k8s/deployments\<close> and methods of
  \<^verbatim>\<open>pkg/model\<close>. They are parameters of the model, one field each, with the Go
  signature read as a function: a helper that mutates the object behind a pointer argument
  takes that object and returns it updated, and it writes to nothing else. (The frame of
  \<open>translate\<close> is not settled on this reading: for it the helpers are handed the whole
  store, in the section on the store with references.)
  \<open>GetDevContainer\<close> returns a pointer into \<^verbatim>\<open>spec.Containers\<close> or nil: an index or
  \<open>None\<close>.

  \<^verbatim>\<open>translate\<close> keeps that pointer (\<^verbatim>\<open>devContainer\<close>) while the helpers of lines 118 to
  120 work on the pod spec, and writes through it again at line 122. Whether the pointer
  then still addresses a container of \<^verbatim>\<open>spec.Containers\<close>, and which, depends on what
  those helpers did to the slice (kept its array, moved it to another one, resliced it);
  the values do not tell. \<open>DevContainerPlace D t rule i ps\<close> is that fact: \<open>ps\<close> being the
  pod spec after line 117 and \<open>i\<close> the place the pointer had then, it is the place in
  \<^verbatim>\<open>spec.Containers\<close> that the pointer addresses when line 122 runs, or \<open>None\<close> when it
  addresses none of them any more (the write of line 122 is then lost to the pod spec).
\<close>

record Collaborators =
  LabelsSelector :: "Dev \<Rightarrow> string"
  ToTranslationRule :: "Dev \<Rightarrow> Dev \<Rightarrow> TranslationRule"
  TranslationVersion :: string
  CommonTranslation :: "Translation \<Rightarrow> ObjectMeta \<Rightarrow> ObjectMeta \<Rightarrow> ObjectMeta \<times> ObjectMeta"
  TranslateDevAnnotations :: "ObjectMeta \<Rightarrow> gomap \<Rightarrow> ObjectMeta"
  TranslateDevTolerations :: "PodSpec \<Rightarrow> Toleration list \<Rightarrow> PodSpec"
  TranslatePodAffinity :: "PodSpec \<Rightarrow> string \<Rightarrow> PodSpec"
  GetDevContainer :: "PodSpec \<Rightarrow> string \<Rightarrow> nat option"
  TranslateDevContainer :: "Container \<Rightarrow> TranslationRule \<Rightarrow> Container"
  TranslateOktetoVolumes :: "PodSpec \<Rightarrow> TranslationRule \<Rightarrow> PodSpec"
  TranslatePodSecurityContext :: "PodSpec \<Rightarrow> int option \<Rightarrow> PodSpec"
  TranslateOktetoDevSecret :: "PodSpec \<Rightarrow> string \<Rightarrow> string list \<Rightarrow> PodSpec"
  TranslateOktetoBinVolumeMounts :: "Container \<Rightarrow> Container"
  TranslateOktetoInitBinContainer :: "PodSpec \<Rightarrow> PodSpec"
  TranslateOktetoBinVolume :: "PodSpec \<Rightarrow> PodSpec"
  DevContainerPlace :: "Translation \<Rightarrow> TranslationRule \<Rightarrow> nat \<Rightarrow> PodSpec \<Rightarrow> nat option"

section \<open>The cluster client and the state of a run\<close>

text \<open>
  \<^verbatim>\<open>kubernetes.Interface\<close> is an interface: any client, a counting mock included. Its
  three calls used here answer with an object or an error. The state of a run is the
  object store (Go's heap of \<^verbatim>\<open>*batchv1.Job\<close>: a pointer is an index, an index past the
  end is the nil pointer), the calls issued to the cluster so far, and whether the caller's
  cancellation signal has fired. The functions of the package take no
  \<^verbatim>\<open>context.Context\<close>, and none of them reads \<open>cancelled\<close>.
\<close>

record Client =
  Get :: "string \<Rightarrow> string \<Rightarrow> api_error + Job"
  List :: "string \<Rightarrow> string \<Rightarrow> api_error + Job list"
  Create :: "string \<Rightarrow> Job \<Rightarrow> api_error + Job"

datatype ApiCall =
    CallGet string string
  | CallList string string
  | CallCreate string Job

record World =
  heap :: "Job list"
  calls :: "ApiCall list"
  cancelled :: bool

fun is_create :: "ApiCall \<Rightarrow> bool" where
  "is_create (CallCreate ns j) = True"
| "is_create c = False"

definition creations :: "World \<Rightarrow> nat" where
  "creations w = length (filter is_create (calls w))"

section \<open>jobs.get\<close>

definition get :: "Collaborators \<Rightarrow> Client \<Rightarrow> Dev \<Rightarrow> string \<Rightarrow> World \<Rightarrow> nat result \<times> World" where
  "get D c dev namespace w =
     (if namespace = [] then (Err ErrEmptyNamespace, w)
      else if map_len0 (DevLabels dev) then
        (let w1 = w\<lparr>calls := calls w @ [CallGet namespace (DevName dev)]\<rparr> in
         case Get c namespace (DevName dev) of
           Inl err \<Rightarrow> (Err (ErrApi err), w1)
         | Inr j \<Rightarrow> (Ok (length (heap w1)), w1\<lparr>heap := heap w1 @ [j]\<rparr>))
      else
        (let w1 = w\<lparr>calls := calls w @ [CallList namespace (LabelsSelector D dev)]\<rparr> in
         case List c namespace (LabelsSelector D dev) of
           Inl err \<Rightarrow> (Err (ErrApi err), w1)
         | Inr items \<Rightarrow>
             (let w2 = w1\<lparr>heap := heap w1 @ items\<rparr> in
              if length items = 0 then (Err (ErrNotFound (LabelsSelector D dev)), w2)
              else if length items > 1
                then (Err (ErrAmbiguous (length items) (LabelsSelector D dev)), w2)
              else (Ok (length (heap w1)), w2))))"

section \<open>jobs.translate\<close>

text \<open>
  \<^verbatim>\<open>old.DeepCopy()\<close> allocates a new object equal to the one behind \<open>old\<close>; maps and
  slices of the copy are its own. On a nil receiver it returns nil, and the next line's
  \<^verbatim>\<open>job.Name\<close> dereferences it.
\<close>

definition DeepCopy :: "Job list \<Rightarrow> nat \<Rightarrow> (nat \<times> Job list) option" where
  "DeepCopy h p = (if p < length h then Some (length h, h @ [h ! p]) else None)"

definition revisionAnnotation :: string where
  "revisionAnnotation = ''deployment.kubernetes.io/revision''"

definition oktetoVersionAnnotation :: string where
  "oktetoVersionAnnotation = ''dev.okteto.com/version''"

text \<open>Lines 90 to 100, on the copy: the new name and the unique values.\<close>

definition translate_init :: "int \<Rightarrow> Job \<Rightarrow> Job result" where
  "translate_init now job0 =
     (let name = ''okteto-'' @ Name (JobMeta job0) @ ''-'' @ fmt_d now;
          job1 = job0\<lparr>JobMeta := (JobMeta job0)\<lparr>Name := name, ResourceVersion := []\<rparr>,
                      Status := JobStatus_zero\<rparr>
      in case map_assign (Labels (JobMeta job1)) ''job-name'' name of
           None \<Rightarrow> Panic NilMapAssign
         | Some ls \<Rightarrow>
             (let job2 = job1\<lparr>JobMeta := (JobMeta job1)\<lparr>Labels := map_delete ls ''controller-uid''\<rparr>,
                              Spec := (Spec job1)\<lparr>Selector := None\<rparr>\<rparr>;
                  tm = TemplateMeta (Template (Spec job2))
              in case map_assign (Labels tm) ''job-name'' name of
                   None \<Rightarrow> Panic NilMapAssign
                 | Some tls \<Rightarrow>
                     (let tm' = tm\<lparr>Labels := map_delete tls ''controller-uid''\<rparr>;
                          job3 = job2\<lparr>Spec := (Spec job2)\<lparr>Template :=
                                   (Template (Spec job2))\<lparr>TemplateMeta := tm'\<rparr>\<rparr>\<rparr>
                      in Ok (job3\<lparr>JobMeta := (JobMeta job3)\<lparr>Annotations :=
                               map_delete (Annotations (JobMeta job3)) revisionAnnotation\<rparr>\<rparr>))))"

text \<open>Lines 102 to 109: the passes that do not depend on a rule.\<close>

definition translate_common :: "Collaborators \<Rightarrow> Translation \<Rightarrow> Job \<Rightarrow> Job" where
  "translate_common D t job =
     (let (m, tm) = CommonTranslation D t (JobMeta job) (TemplateMeta (Template (Spec job)));
          tm1 = TranslateDevAnnotations D tm (TAnnotations t);
          ps1 = TranslateDevTolerations D (TemplateSpec (Template (Spec job))) (TTolerations t);
          ps2 = TranslatePodAffinity D ps1 (TName t);
          ps3 = ps2\<lparr>Tolerations := Tolerations ps2 @ TTolerations t\<rparr>
      in job\<lparr>JobMeta := m,
              Spec := (Spec job)\<lparr>Template := \<lparr>TemplateMeta = tm1, TemplateSpec = ps3\<rparr>\<rparr>\<rparr>)"

text \<open>
  Lines 117 to 125: one rule applied to the pod spec, \<open>i\<close> being the place in
  \<^verbatim>\<open>spec.Containers\<close> of the container that \<^verbatim>\<open>devContainer\<close> points to at line 112.
  Line 117 writes through the pointer at once, so at that place; line 122 writes where the
  pointer addresses the pod spec by then.
\<close>

definition on_container :: "nat \<Rightarrow> (Container \<Rightarrow> Container) \<Rightarrow> PodSpec \<Rightarrow> PodSpec" where
  "on_container i f ps = ps\<lparr>Containers := (Containers ps)[i := f (Containers ps ! i)]\<rparr>"

definition translate_rule :: "Collaborators \<Rightarrow> Translation \<Rightarrow> TranslationRule \<Rightarrow> nat \<Rightarrow> PodSpec \<Rightarrow> PodSpec" where
  "translate_rule D t rule i ps =
     (let ps1 = on_container i (\<lambda>c. TranslateDevContainer D c rule) ps;
          ps2 = TranslateOktetoVolumes D ps1 rule;
          ps3 = TranslatePodSecurityContext D ps2 (SecurityContext rule);
          ps4 = TranslateOktetoDevSecret D ps3 (TName t) (Secrets rule)
      in if Marker rule \<noteq> []
         then TranslateOktetoBinVolume D
                (TranslateOktetoInitBinContainer D
                   (case DevContainerPlace D t rule i ps1 of
                      None \<Rightarrow> ps4
                    | Some k \<Rightarrow> on_container k (TranslateOktetoBinVolumeMounts D) ps4))
         else ps4)"

text \<open>Lines 111 to 126: the loop over \<^verbatim>\<open>t.Rules\<close>.\<close>

fun translate_rules :: "Collaborators \<Rightarrow> Translation \<Rightarrow> TranslationRule list \<Rightarrow> Job \<Rightarrow> Job result" where
  "translate_rules D t [] job = Ok job"
| "translate_rules D t (rule # rules) job =
     (let ps = TemplateSpec (Template (Spec job)) in
      case GetDevContainer D ps (RuleContainer rule) of
        None \<Rightarrow> Err (ErrContainerNotFound (RuleContainer rule) (Name (JobMeta job)))
      | Some i \<Rightarrow>
          translate_rules D t rules
            (job\<lparr>Spec := (Spec job)\<lparr>Template :=
               (Template (Spec job))\<lparr>TemplateSpec := translate_rule D t rule i ps\<rparr>\<rparr>\<rparr>))"

text \<open>
  \<open>translate\<close>: the copy is allocated, the statements run on it, and a pointer to it is
  returned. \<open>now\<close> is \<^verbatim>\<open>time.Now().Unix()\<close>. On the two failing paths the function returns
  nil and the copy is unreachable; the store keeps it as allocated.
\<close>

definition translate :: "Collaborators \<Rightarrow> int \<Rightarrow> Job list \<Rightarrow> nat \<Rightarrow> Translation \<Rightarrow> nat result \<times> Job list" where
  "translate D now h old t =
     (case DeepCopy h old of
        None \<Rightarrow> (Panic NilDereference, h)
      | Some (job, h1) \<Rightarrow>
          (case translate_init now (h1 ! job) of
             Panic p \<Rightarrow> (Panic p, h1)
           | Err e \<Rightarrow> (Err e, h1)
           | Ok j1 \<Rightarrow>
               (case translate_rules D t (Rules t) (translate_common D t j1) of
                  Panic p \<Rightarrow> (Panic p, h1)
                | Err e \<Rightarrow> (Err e, h1)
                | Ok j2 \<Rightarrow> (Ok job, h1[job := j2]))))"

section \<open>jobs.CreateDevJob\<close>

text \<open>The \<^verbatim>\<open>model.Translation\<close> literal of lines 64 to 73, \<open>j\<close> being the source job.\<close>

definition job_translation :: "Collaborators \<Rightarrow> Dev \<Rightarrow> Dev \<Rightarrow> nat \<Rightarrow> Translation" where
  "job_translation D job main j =
     (let rule = ToTranslationRule D job main in
      \<lparr>TName = DevName main, Interactive = False,
       Version = TranslationVersion D, TJob = j,
       TAnnotations = DevAnnotations main, TTolerations = DevTolerations main,
       Rules = [rule]\<rparr>)"

definition CreateDevJob :: "Collaborators \<Rightarrow> Client \<Rightarrow> int \<Rightarrow> Dev \<Rightarrow> Dev \<Rightarrow> World \<Rightarrow> string result \<times> World" where
  "CreateDevJob D c now job main w =
     (case get D c job (DevNamespace main) w of
        (Panic p, w1) \<Rightarrow> (Panic p, w1)
      | (Err e, w1) \<Rightarrow> (Err e, w1)
      | (Ok j, w1) \<Rightarrow>
          (let t = job_translation D job main j
           in case translate D now (heap w1) j t of
                (Panic p, h2) \<Rightarrow> (Panic p, w1\<lparr>heap := h2\<rparr>)
              | (Err e, h2) \<Rightarrow> (Err e, w1\<lparr>heap := h2\<rparr>)
              | (Ok newJob, h2) \<Rightarrow>
                  (let w2 = w1\<lparr>heap := h2,
                              calls := calls w1 @ [CallCreate (DevNamespace main) (h2 ! newJob)]\<rparr>
                   in case Create c (DevNamespace main) (h2 ! newJob) of
                        Inl err \<Rightarrow> (Err (ErrCreateFailed err), w2)
                      | Inr created \<Rightarrow> (Ok (Name (JobMeta created)), w2))))"

section \<open>What the claims assume of the collaborators\<close>

text \<open>
  \<^verbatim>\<open>CommonTranslation\<close> receives the metadata of the object and of its pod template,
  \<^verbatim>\<open>TranslateDevAnnotations\<close> that of the pod template. \<open>keeps_name\<close> says that the
  first leaves the object's name as it is; \<open>identity_frame\<close> says that neither touches
  the resource version, the two job labels or the revision annotation.
\<close>

definition keeps_name :: "Collaborators \<Rightarrow> bool" where
  "keeps_name D \<longleftrightarrow> (\<forall>t m tm. Name (fst (CommonTranslation D t m tm)) = Name m)"

definition same_job_labels :: "ObjectMeta \<Rightarrow> ObjectMeta \<Rightarrow> bool" where
  "same_job_labels m m' \<longleftrightarrow>
     map_index (Labels m') ''job-name'' = map_index (Labels m) ''job-name'' \<and>
     map_index (Labels m') ''controller-uid'' = map_index (Labels m) ''controller-uid''"

definition same_identity :: "ObjectMeta \<Rightarrow> ObjectMeta \<Rightarrow> bool" where
  "same_identity m m' \<longleftrightarrow>
     ResourceVersion m' = ResourceVersion m \<and> same_job_labels m m' \<and>
     map_index (Annotations m') revisionAnnotation = map_index (Annotations m) revisionAnnotation"

definition identity_frame :: "Collaborators \<Rightarrow> bool" where
  "identity_frame D \<longleftrightarrow>
     (\<forall>t m tm. same_identity m (fst (CommonTranslation D t m tm)) \<and>
                same_job_labels tm (snd (CommonTranslation D t m tm))) \<and>
     (\<forall>tm a. same_job_labels tm (TranslateDevAnnotations D tm a))"

section \<open>ssh: dialing the server\<close>

text \<open>
  \<^verbatim>\<open>net.Dialer.DialContext\<close> is the environment: \<open>dial addr k\<close> is what the \<open>k\<close>-th call
  of one \<^verbatim>\<open>getConn\<close> answers (the context's state is part of that answer), a connection
  or an error. The trace lists the effects in order: a dial, or a receive from the ticker,
  which carries the ticker's period in milliseconds.
\<close>

datatype NetAction = DialTCP string | TickerWait nat

type_synonym Dialer = "string \<Rightarrow> nat \<Rightarrow> string + nat"

fun is_dial :: "NetAction \<Rightarrow> bool" where
  "is_dial (DialTCP a) = True"
| "is_dial (TickerWait n) = False"

definition dials :: "NetAction list \<Rightarrow> nat" where
  "dials tr = length (filter is_dial tr)"

function getConn_loop :: "Dialer \<Rightarrow> string \<Rightarrow> nat \<Rightarrow> string option \<Rightarrow> NetAction list \<Rightarrow> (nat option \<times> string option) \<times> NetAction list" where
  "getConn_loop dial serverAddr i lastErr tr =
     (if i < 5 then
        (case dial serverAddr i of
           Inr c \<Rightarrow> ((Some c, None), tr @ [DialTCP serverAddr])
         | Inl err \<Rightarrow>
             getConn_loop dial serverAddr (i + 1) (Some err)
               (tr @ [DialTCP serverAddr, TickerWait 100]))
      else ((None, lastErr), tr))"
  by pat_completeness auto
termination
  by (relation "measure (\<lambda>(dial, serverAddr, i, lastErr, tr). 5 - i)") auto

declare getConn_loop.simps [simp del]

text \<open>
  \<open>getConn\<close> returns Go's pair of a connection and an error. \<^verbatim>\<open>getTCPConnection\<close>, its
  only caller, passes 3 for \<open>maxRetries\<close>.
\<close>

definition getConn :: "Dialer \<Rightarrow> string \<Rightarrow> int \<Rightarrow> (nat option \<times> string option) \<times> NetAction list" where
  "getConn dial serverAddr maxRetries = getConn_loop dial serverAddr 0 None []"

section \<open>ssh: the pool, its keep-alive loop and stop\<close>

text \<open>
  The pool with what can be observed of it: the requests sent over \<^verbatim>\<open>p.client\<close>, the
  number of \<^verbatim>\<open>Close\<close> calls on it, the lines written to the log, and where the goroutine
  of \<^verbatim>\<open>keepAlive\<close> stands: in its \<^verbatim>\<open>select\<close>, between the test of \<^verbatim>\<open>p.stopped\<close> and
  \<^verbatim>\<open>SendRequest\<close>, or returned. \<open>ka\<close> is in nanoseconds. \<^verbatim>\<open>p.stopped\<close> is a plain
  \<^verbatim>\<open>bool\<close> that \<^verbatim>\<open>stop\<close> writes and \<^verbatim>\<open>keepAlive\<close> reads with no lock between them.
\<close>

datatype ctx_error = Canceled | DeadlineExceeded

datatype KeepAlivePc = Selecting | Sending | Returned

record Pool =
  ka :: int
  stopped :: bool
  sent :: "string list"
  closes :: nat
  logged :: "string list"
  pc :: KeepAlivePc

text \<open>The pool as \<^verbatim>\<open>startPool\<close> leaves it on success, the goroutine started.\<close>

definition started_pool :: Pool where
  "started_pool = \<lparr>ka = 30 * 1000000000, stopped = False, sent = [], closes = 0,
                 logged = [], pc = Selecting\<rparr>"

text \<open>
  What the \<^verbatim>\<open>select\<close> of \<^verbatim>\<open>keepAlive\<close> receives: the context is done, with the value
  of \<^verbatim>\<open>ctx.Err()\<close>, or the ticker fired.
\<close>

datatype Select = CtxDone "ctx_error option" | TickerC

definition ctx_error_text :: "ctx_error \<Rightarrow> string" where
  "ctx_error_text e = (case e of Canceled \<Rightarrow> ''context canceled''
                                | DeadlineExceeded \<Rightarrow> ''context deadline exceeded'')"

text \<open>
  Lines 90 to 103 of \<^verbatim>\<open>keepAlive\<close>: the \<^verbatim>\<open>select\<close> and, on a tick, the test of
  \<^verbatim>\<open>p.stopped\<close>. After a tick with the flag not set the goroutine stands before
  \<^verbatim>\<open>SendRequest\<close>.
\<close>

definition keepAlive_select :: "Select \<Rightarrow> Pool \<Rightarrow> Pool" where
  "keepAlive_select ev p =
     (case ev of
        CtxDone err \<Rightarrow>
          (case err of
             None \<Rightarrow> p\<lparr>pc := Returned\<rparr>
           | Some e \<Rightarrow>
               (if e \<noteq> Canceled
                then p\<lparr>logged := logged p @
                        [''ssh pool keep alive completed with error: '' @ ctx_error_text e],
                       pc := Returned\<rparr>
                else p\<lparr>pc := Returned\<rparr>))
      | TickerC \<Rightarrow> (if stopped p then p\<lparr>pc := Returned\<rparr> else p\<lparr>pc := Sending\<rparr>))"

text \<open>
  Lines 105 to 107: the request goes out, \<open>answer\<close> is the error of \<^verbatim>\<open>SendRequest\<close> or
  nil, and the loop is back at its \<^verbatim>\<open>select\<close>.
\<close>

definition keepAlive_send :: "string option \<Rightarrow> Pool \<Rightarrow> Pool" where
  "keepAlive_send answer p =
     (let p1 = p\<lparr>sent := sent p @ [''dev.okteto.com/keepalive'']\<rparr> in
      case answer of
        None \<Rightarrow> p1\<lparr>pc := Selecting\<rparr>
      | Some err \<Rightarrow> p1\<lparr>logged := logged p1 @ [''failed to send SSH keepalive: '' @ err],
                        pc := Selecting\<rparr>)"

text \<open>
  \<open>stop\<close>, statement by statement: line 161 sets the flag; lines 162 to 166 close the
  client, \<open>answer\<close> being what \<^verbatim>\<open>p.client.Close()\<close> returns and \<open>IsClosedNetwork\<close> the
  predicate of \<^verbatim>\<open>pkg/errors\<close>, a parameter.
\<close>

definition stop_flag :: "Pool \<Rightarrow> Pool" where
  "stop_flag p = p\<lparr>stopped := True\<rparr>"

definition stop_close :: "(string \<Rightarrow> bool) \<Rightarrow> string option \<Rightarrow> Pool \<Rightarrow> Pool" where
  "stop_close IsClosedNetwork answer p =
     (let p1 = p\<lparr>closes := closes p + 1\<rparr> in
      case answer of
        None \<Rightarrow> p1
      | Some err \<Rightarrow>
          (if \<not> IsClosedNetwork err
           then p1\<lparr>logged := logged p1 @ [''failed to close SSH pool: '' @ err]\<rparr>
           else p1))"

definition stop :: "(string \<Rightarrow> bool) \<Rightarrow> string option \<Rightarrow> Pool \<Rightarrow> Pool" where
  "stop IsClosedNetwork answer p = stop_close IsClosedNetwork answer (stop_flag p)"

text \<open>
  A run of the pool is an interleaving of the steps of the two goroutines, each step one
  statement: the goroutine of \<^verbatim>\<open>keepAlive\<close> receives in its \<^verbatim>\<open>select\<close> (and tests the
  flag) or sends; a caller of \<open>stop\<close> sets the flag or closes the client. Every read of the
  flag sees the last write. A step of \<^verbatim>\<open>keepAlive\<close> that does not fit where the goroutine
  stands does not happen.
\<close>

datatype Event =
    Selected Select
  | Sent "string option"
  | StopFlag
  | StopClose "string option"

fun run :: "(string \<Rightarrow> bool) \<Rightarrow> Event list \<Rightarrow> Pool \<Rightarrow> Pool" where
  "run I [] p = p"
| "run I (Selected ev # es) p = run I es (if pc p = Selecting then keepAlive_select ev p else p)"
| "run I (Sent answer # es) p = run I es (if pc p = Sending then keepAlive_send answer p else p)"
| "run I (StopFlag # es) p = run I es (stop_flag p)"
| "run I (StopClose answer # es) p = run I es (stop_close I answer p)"

section \<open>Concrete objects\<close>

text \<open>
  One instance of the collaborators and a few cluster objects, on which the model is run
  in the closed theorems below. \<open>set_entry\<close> writes an entry and makes the map first when
  it is nil.
\<close>

definition set_entry :: "gomap \<Rightarrow> string \<Rightarrow> string \<Rightarrow> gomap" where
  "set_entry m k v = Some ((case m of None \<Rightarrow> Map.empty | Some f \<Rightarrow> f)(k \<mapsto> v))"

fun container_index :: "string \<Rightarrow> Container list \<Rightarrow> nat option" where
  "container_index n [] = None"
| "container_index n (c # cs) =
     (if ContainerName c = n then Some 0 else map_option Suc (container_index n cs))"

definition example_collaborators :: Collaborators where
  "example_collaborators =
     \<lparr>LabelsSelector =
        (\<lambda>dev. case map_index (DevLabels dev) ''app'' of None \<Rightarrow> [] | Some v \<Rightarrow> ''app='' @ v),
      ToTranslationRule =
        (\<lambda>job main. \<lparr>RuleContainer = DevContainer job, RuleImage = DevImage job,
                      Marker = ''okteto-bin'', SecurityContext = None, Secrets = []\<rparr>),
      TranslationVersion = ''1.0'',
      CommonTranslation =
        (\<lambda>t m tm. (m\<lparr>Annotations := set_entry (Annotations m) oktetoVersionAnnotation (Version t)\<rparr>,
                    tm\<lparr>Labels := set_entry (Labels tm) ''detached.dev.okteto.com'' (TName t)\<rparr>)),
      TranslateDevAnnotations =
        (\<lambda>tm a. case a of None \<Rightarrow> tm
                 | Some g \<Rightarrow> tm\<lparr>Annotations :=
                     Some ((case Annotations tm of None \<Rightarrow> Map.empty | Some f \<Rightarrow> f) ++ g)\<rparr>),
      TranslateDevTolerations = (\<lambda>ps tols. ps),
      TranslatePodAffinity = (\<lambda>ps n. ps),
      GetDevContainer = (\<lambda>ps n. container_index n (Containers ps)),
      TranslateDevContainer = (\<lambda>c rule. if RuleImage rule = [] then c else c\<lparr>Image := RuleImage rule\<rparr>),
      TranslateOktetoVolumes = (\<lambda>ps rule. ps),
      TranslatePodSecurityContext = (\<lambda>ps sc. case sc of None \<Rightarrow> ps | Some u \<Rightarrow> ps\<lparr>RunAsUser := Some u\<rparr>),
      TranslateOktetoDevSecret = (\<lambda>ps n secrets. ps),
      TranslateOktetoBinVolumeMounts = (\<lambda>c. c\<lparr>VolumeMounts := VolumeMounts c @ [''okteto-bin'']\<rparr>),
      TranslateOktetoInitBinContainer =
        (\<lambda>ps. ps\<lparr>InitContainers := InitContainers ps @
                  [\<lparr>ContainerName = ''okteto-bin'', Image = ''okteto/bin'',
                    VolumeMounts = [''okteto-bin'']\<rparr>]\<rparr>),
      TranslateOktetoBinVolume = (\<lambda>ps. ps\<lparr>Volumes := Volumes ps @ [''okteto-bin'']\<rparr>),
      DevContainerPlace = (\<lambda>t rule i ps. Some i)\<rparr>"

definition web_labels :: gomap where
  "web_labels = Some [''job-name'' \<mapsto> ''web'', ''controller-uid'' \<mapsto> ''u-1'', ''app'' \<mapsto> ''web'']"

definition web :: Job where
  "web =
     \<lparr>JobMeta = \<lparr>Name = ''web'', ResourceVersion = ''41'', Labels = web_labels,
                  Annotations = Some [revisionAnnotation \<mapsto> ''3'']\<rparr>,
      Spec = \<lparr>Selector = Some (Some [''controller-uid'' \<mapsto> ''u-1'']),
               Template =
                 \<lparr>TemplateMeta = \<lparr>Name = [], ResourceVersion = [], Labels = web_labels,
                                   Annotations = None\<rparr>,
                  TemplateSpec = \<lparr>Containers = [\<lparr>ContainerName = ''app'', Image = ''prod:1'',
                                                  VolumeMounts = []\<rparr>],
                                   InitContainers = [], Volumes = [], Tolerations = [],
                                   RunAsUser = None\<rparr>\<rparr>\<rparr>,
      Status = \<lparr>Active = 1, Succeeded = 0, Failed = 0, StartTime = Some 1600000000,
                 CompletionTime = None\<rparr>\<rparr>"

text \<open>The same job with no labels on the object, and a second job.\<close>

definition web_unlabelled :: Job where
  "web_unlabelled = web\<lparr>JobMeta := (JobMeta web)\<lparr>Labels := None\<rparr>\<rparr>"

definition db :: Job where
  "db = web\<lparr>JobMeta := (JobMeta web)\<lparr>Name := ''db''\<rparr>\<rparr>"

definition example_client :: Client where
  "example_client =
     \<lparr>Get = (\<lambda>ns name. if name = ''web'' then Inr web
                        else if name = ''bare'' then Inr web_unlabelled
                        else Inl ''jobs.batch not found''),
      List = (\<lambda>ns sel. if sel = ''app=web'' then Inr [web]
                       else if sel = ''app=none'' then Inr []
                       else Inr [web, db]),
      Create = (\<lambda>ns j. Inr j)\<rparr>"

definition main_dev :: Dev where
  "main_dev = \<lparr>DevName = ''sess'', DevNamespace = ''ns1'', DevLabels = None,
                DevAnnotations = None, DevTolerations = [], DevContainer = ''app'',
                DevImage = ''dev:latest''\<rparr>"

definition job_dev :: Dev where
  "job_dev = \<lparr>DevName = ''web'', DevNamespace = ''ns1'', DevLabels = None,
               DevAnnotations = None, DevTolerations = [], DevContainer = ''app'',
               DevImage = ''dev:latest''\<rparr>"

text \<open>A manifest whose container is not one of the job's.\<close>

definition stray_dev :: Dev where
  "stray_dev = job_dev\<lparr>DevContainer := ''nope''\<rparr>"

definition labelled_dev :: "string \<Rightarrow> Dev" where
  "labelled_dev v = job_dev\<lparr>DevLabels := Some [''app'' \<mapsto> v]\<rparr>"

definition example_translation :: Translation where
  "example_translation =
     \<lparr>TName = ''sess'', Interactive = False, Version = ''1.0'', TJob = 0,
      TAnnotations = None, TTolerations = [],
      Rules = [\<lparr>RuleContainer = ''app'', RuleImage = ''dev:latest'', Marker = ''okteto-bin'',
                SecurityContext = None, Secrets = []\<rparr>]\<rparr>"

definition world0 :: World where
  "world0 = \<lparr>heap = [], calls = [], cancelled = False\<rparr>"

text \<open>A server that refuses the first two dials, and one that refuses all.\<close>

definition third_time_dialer :: Dialer where
  "third_time_dialer addr k = (if k < 2 then Inl ''connection refused'' else Inr 7)"

definition refusing_dialer :: Dialer where
  "refusing_dialer addr k = Inl (''refused '' @ fmt_d (int k))"

definition closed_network :: "string \<Rightarrow> bool" where
  "closed_network err \<longleftrightarrow> err = ''use of closed network connection''"

section \<open>translate on a store with references\<close>

text \<open>
  In the store of the sections above an object is one value. Here a Go map and the array
  behind a slice are cells of their own, which two objects may share, and the struct of a
  job holds references to them (\<open>None\<close> is the nil map or slice, \<open>Some a\<close> the cell at
  address \<open>a\<close>). The selector's struct and its label map are one cell. The elements of a
  container array are values. Go is typed: a reference is to a cell of its kind, inside the
  store; where it is not, the operations below leave the store as it is.
\<close>

record MetaRefs =
  RName :: string
  RResourceVersion :: string
  RLabels :: "nat option"
  RAnnotations :: "nat option"

record JobRefs =
  RMeta :: MetaRefs
  RSelector :: "nat option"
  RTemplateMeta :: MetaRefs
  RContainers :: "nat option"
  RInitContainers :: "nat option"
  RVolumes :: "nat option"
  RTolerations :: "nat option"
  RRunAs :: "int option"
  RStatus :: JobStatus

datatype Cell =
    MapCell "string \<Rightarrow> string option"
  | ContainersCell "Container list"
  | VolumesCell "string list"
  | TolerationsCell "Toleration list"
  | JobCell JobRefs

definition nil_job :: JobRefs where
  "nil_job =
     \<lparr>RMeta = \<lparr>RName = [], RResourceVersion = [], RLabels = None, RAnnotations = None\<rparr>,
      RSelector = None,
      RTemplateMeta = \<lparr>RName = [], RResourceVersion = [], RLabels = None, RAnnotations = None\<rparr>,
      RContainers = None, RInitContainers = None, RVolumes = None, RTolerations = None,
      RRunAs = None, RStatus = JobStatus_zero\<rparr>"

text \<open>Reading and writing the struct behind a pointer, and the cells behind its references.\<close>

definition job_at :: "Cell list \<Rightarrow> nat \<Rightarrow> JobRefs" where
  "job_at s a = (if a < length s then (case s ! a of JobCell j \<Rightarrow> j | _ \<Rightarrow> nil_job) else nil_job)"

definition upd_job :: "nat \<Rightarrow> (JobRefs \<Rightarrow> JobRefs) \<Rightarrow> Cell list \<Rightarrow> Cell list" where
  "upd_job a f s =
     (if a < length s then (case s ! a of JobCell j \<Rightarrow> s[a := JobCell (f j)] | _ \<Rightarrow> s) else s)"

definition map_put :: "nat \<Rightarrow> string \<Rightarrow> string \<Rightarrow> Cell list \<Rightarrow> Cell list" where
  "map_put a k v s =
     (if a < length s then (case s ! a of MapCell m \<Rightarrow> s[a := MapCell (m(k \<mapsto> v))] | _ \<Rightarrow> s)
      else s)"

definition map_drop :: "nat option \<Rightarrow> string \<Rightarrow> Cell list \<Rightarrow> Cell list" where
  "map_drop r k s =
     (case r of
        None \<Rightarrow> s
      | Some a \<Rightarrow>
          (if a < length s
           then (case s ! a of MapCell m \<Rightarrow> s[a := MapCell (m(k := None))] | _ \<Rightarrow> s)
           else s))"

definition read_map :: "Cell list \<Rightarrow> nat option \<Rightarrow> gomap" where
  "read_map s r =
     (case r of
        None \<Rightarrow> None
      | Some a \<Rightarrow> (if a < length s then (case s ! a of MapCell m \<Rightarrow> Some m | _ \<Rightarrow> None) else None))"

definition read_containers :: "Cell list \<Rightarrow> nat option \<Rightarrow> Container list" where
  "read_containers s r =
     (case r of
        None \<Rightarrow> []
      | Some a \<Rightarrow> (if a < length s then (case s ! a of ContainersCell cs \<Rightarrow> cs | _ \<Rightarrow> []) else []))"

definition read_volumes :: "Cell list \<Rightarrow> nat option \<Rightarrow> string list" where
  "read_volumes s r =
     (case r of
        None \<Rightarrow> []
      | Some a \<Rightarrow> (if a < length s then (case s ! a of VolumesCell vs \<Rightarrow> vs | _ \<Rightarrow> []) else []))"

definition read_tolerations :: "Cell list \<Rightarrow> nat option \<Rightarrow> Toleration list" where
  "read_tolerations s r =
     (case r of
        None \<Rightarrow> []
      | Some a \<Rightarrow> (if a < length s then (case s ! a of TolerationsCell ts \<Rightarrow> ts | _ \<Rightarrow> []) else []))"

text \<open>
  The structural snapshot of the object behind a pointer: the value that the struct and
  the cells it refers to make up (a nil slice and an empty one read the same).
\<close>

definition snapshot_meta :: "Cell list \<Rightarrow> MetaRefs \<Rightarrow> ObjectMeta" where
  "snapshot_meta s m =
     \<lparr>Name = RName m, ResourceVersion = RResourceVersion m,
      Labels = read_map s (RLabels m), Annotations = read_map s (RAnnotations m)\<rparr>"

definition snapshot :: "Cell list \<Rightarrow> nat \<Rightarrow> Job" where
  "snapshot s a =
     (let j = job_at s a in
      \<lparr>JobMeta = snapshot_meta s (RMeta j),
       Spec = \<lparr>Selector = (case RSelector j of None \<Rightarrow> None | Some r \<Rightarrow> Some (read_map s (Some r))),
                Template =
                  \<lparr>TemplateMeta = snapshot_meta s (RTemplateMeta j),
                   TemplateSpec =
                     \<lparr>Containers = read_containers s (RContainers j),
                      InitContainers = read_containers s (RInitContainers j),
                      Volumes = read_volumes s (RVolumes j),
                      Tolerations = read_tolerations s (RTolerations j),
                      RunAsUser = RRunAs j\<rparr>\<rparr>\<rparr>,
       Status = RStatus j\<rparr>)"

text \<open>The nine references of a job, and the job with nine others in their place.\<close>

definition job_refs :: "JobRefs \<Rightarrow> nat option list" where
  "job_refs j =
     [RLabels (RMeta j), RAnnotations (RMeta j), RSelector j,
      RLabels (RTemplateMeta j), RAnnotations (RTemplateMeta j),
      RContainers j, RInitContainers j, RVolumes j, RTolerations j]"

definition with_refs :: "JobRefs \<Rightarrow> nat option list \<Rightarrow> JobRefs" where
  "with_refs j rs =
     j\<lparr>RMeta := (RMeta j)\<lparr>RLabels := rs ! 0, RAnnotations := rs ! 1\<rparr>,
       RSelector := rs ! 2,
       RTemplateMeta := (RTemplateMeta j)\<lparr>RLabels := rs ! 3, RAnnotations := rs ! 4\<rparr>,
       RContainers := rs ! 5, RInitContainers := rs ! 6, RVolumes := rs ! 7,
       RTolerations := rs ! 8\<rparr>"

text \<open>
  \<^verbatim>\<open>DeepCopy\<close> (generated code of k8s.io/api): a new struct, and for every map and slice
  of the original that is not nil a new one with the same content.
\<close>

definition copy_cell :: "nat option \<Rightarrow> Cell list \<Rightarrow> nat option \<times> Cell list" where
  "copy_cell r s = (case r of None \<Rightarrow> (None, s) | Some a \<Rightarrow> (Some (length s), s @ [s ! a]))"

fun copy_cells :: "nat option list \<Rightarrow> Cell list \<Rightarrow> nat option list \<times> Cell list" where
  "copy_cells [] s = ([], s)"
| "copy_cells (r # rs) s =
     (case copy_cell r s of
        (r', s1) \<Rightarrow> (case copy_cells rs s1 of (rs', s2) \<Rightarrow> (r' # rs', s2)))"

definition DeepCopy_refs :: "Cell list \<Rightarrow> nat \<Rightarrow> (nat \<times> Cell list) option" where
  "DeepCopy_refs s old =
     (if old < length s then
        (case s ! old of
           JobCell j \<Rightarrow>
             (case copy_cells (job_refs j) s of
                (rs, s1) \<Rightarrow> Some (length s1, s1 @ [JobCell (with_refs j rs)]))
         | _ \<Rightarrow> None)
      else None)"

text \<open>
  The helpers, handed the store: a pointer to the job stands for the pointers to its
  metadata, its pod template's metadata or its pod spec, and a pointer to a container is
  the address of its array and its place there. A helper may read and write any cell,
  the one behind \<^verbatim>\<open>t.Job\<close> included.
\<close>

record StoreCollaborators =
  SCommonTranslation :: "Translation \<Rightarrow> nat \<Rightarrow> Cell list \<Rightarrow> Cell list"
  STranslateDevAnnotations :: "nat \<Rightarrow> gomap \<Rightarrow> Cell list \<Rightarrow> Cell list"
  STranslateDevTolerations :: "nat \<Rightarrow> Toleration list \<Rightarrow> Cell list \<Rightarrow> Cell list"
  STranslatePodAffinity :: "nat \<Rightarrow> string \<Rightarrow> Cell list \<Rightarrow> Cell list"
  SGetDevContainer :: "nat \<Rightarrow> string \<Rightarrow> Cell list \<Rightarrow> (nat \<times> nat) option"
  STranslateDevContainer :: "nat \<times> nat \<Rightarrow> TranslationRule \<Rightarrow> Cell list \<Rightarrow> Cell list"
  STranslateOktetoVolumes :: "nat \<Rightarrow> TranslationRule \<Rightarrow> Cell list \<Rightarrow> Cell list"
  STranslatePodSecurityContext :: "nat \<Rightarrow> int option \<Rightarrow> Cell list \<Rightarrow> Cell list"
  STranslateOktetoDevSecret :: "nat \<Rightarrow> string \<Rightarrow> string list \<Rightarrow> Cell list \<Rightarrow> Cell list"
  STranslateOktetoBinVolumeMounts :: "nat \<times> nat \<Rightarrow> Cell list \<Rightarrow> Cell list"
  STranslateOktetoInitBinContainer :: "nat \<Rightarrow> Cell list \<Rightarrow> Cell list"
  STranslateOktetoBinVolume :: "nat \<Rightarrow> Cell list \<Rightarrow> Cell list"

text \<open>
  Line 109: \<^verbatim>\<open>append\<close> of no element returns the slice it was given; otherwise the
  elements go to a new array (an \<^verbatim>\<open>append\<close> within the capacity of the old array writes
  into that array, which is the one the slice already refers to).
\<close>

definition append_tolerations :: "nat \<Rightarrow> Toleration list \<Rightarrow> Cell list \<Rightarrow> Cell list" where
  "append_tolerations job ts s =
     (if ts = [] then s
      else upd_job job (\<lambda>j. j\<lparr>RTolerations := Some (length s)\<rparr>)
             (s @ [TolerationsCell (read_tolerations s (RTolerations (job_at s job)) @ ts)]))"

text \<open>Lines 90 to 100 on the copy at \<open>job\<close>; a panic leaves the store as it is then.\<close>

definition translate_refs_init :: "int \<Rightarrow> nat \<Rightarrow> Cell list \<Rightarrow> panic option \<times> Cell list" where
  "translate_refs_init now job s =
     (let name = ''okteto-'' @ RName (RMeta (job_at s job)) @ ''-'' @ fmt_d now;
          s1 = upd_job job (\<lambda>j. j\<lparr>RMeta := (RMeta j)\<lparr>RName := name\<rparr>\<rparr>) s;
          s2 = upd_job job (\<lambda>j. j\<lparr>RStatus := JobStatus_zero\<rparr>) s1;
          s3 = upd_job job (\<lambda>j. j\<lparr>RMeta := (RMeta j)\<lparr>RResourceVersion := []\<rparr>\<rparr>) s2
      in case RLabels (RMeta (job_at s3 job)) of
           None \<Rightarrow> (Some NilMapAssign, s3)
         | Some l \<Rightarrow>
             (let s4 = map_put l ''job-name'' name s3;
                  s5 = map_drop (RLabels (RMeta (job_at s4 job))) ''controller-uid'' s4;
                  s6 = upd_job job (\<lambda>j. j\<lparr>RSelector := None\<rparr>) s5
              in case RLabels (RTemplateMeta (job_at s6 job)) of
                   None \<Rightarrow> (Some NilMapAssign, s6)
                 | Some tml \<Rightarrow>
                     (let s7 = map_put tml ''job-name'' name s6;
                          s8 = map_drop (RLabels (RTemplateMeta (job_at s7 job))) ''controller-uid'' s7
                      in (None, map_drop (RAnnotations (RMeta (job_at s8 job))) revisionAnnotation s8))))"

text \<open>Lines 102 to 109.\<close>

definition translate_refs_common :: "StoreCollaborators \<Rightarrow> Translation \<Rightarrow> nat \<Rightarrow> Cell list \<Rightarrow> Cell list" where
  "translate_refs_common D t job s =
     (let s1 = SCommonTranslation D t job s;
          s2 = STranslateDevAnnotations D job (TAnnotations t) s1;
          s3 = STranslateDevTolerations D job (TTolerations t) s2;
          s4 = STranslatePodAffinity D job (TName t) s3
      in append_tolerations job (TTolerations t) s4)"

text \<open>Lines 111 to 126; \<open>dc\<close> is the pointer \<^verbatim>\<open>devContainer\<close>.\<close>

definition translate_refs_rule :: "StoreCollaborators \<Rightarrow> Translation \<Rightarrow> TranslationRule \<Rightarrow> nat \<Rightarrow> nat \<times> nat \<Rightarrow> Cell list \<Rightarrow> Cell list" where
  "translate_refs_rule D t rule job dc s =
     (let s1 = STranslateDevContainer D dc rule s;
          s2 = STranslateOktetoVolumes D job rule s1;
          s3 = STranslatePodSecurityContext D job (SecurityContext rule) s2;
          s4 = STranslateOktetoDevSecret D job (TName t) (Secrets rule) s3
      in if Marker rule \<noteq> []
         then STranslateOktetoBinVolume D job
                (STranslateOktetoInitBinContainer D job (STranslateOktetoBinVolumeMounts D dc s4))
         else s4)"

fun translate_refs_rules :: "StoreCollaborators \<Rightarrow> Translation \<Rightarrow> TranslationRule list \<Rightarrow> nat \<Rightarrow> Cell list \<Rightarrow> nat result \<times> Cell list" where
  "translate_refs_rules D t [] job s = (Ok job, s)"
| "translate_refs_rules D t (rule # rules) job s =
     (case SGetDevContainer D job (RuleContainer rule) s of
        None \<Rightarrow> (Err (ErrContainerNotFound (RuleContainer rule) (RName (RMeta (job_at s job)))), s)
      | Some dc \<Rightarrow> translate_refs_rules D t rules job (translate_refs_rule D t rule job dc s))"

definition translate_refs :: "StoreCollaborators \<Rightarrow> int \<Rightarrow> Cell list \<Rightarrow> nat \<Rightarrow> Translation \<Rightarrow> nat result \<times> Cell list" where
  "translate_refs D now s old t =
     (case DeepCopy_refs s old of
        None \<Rightarrow> (Panic NilDereference, s)
      | Some (job, s1) \<Rightarrow>
          (case translate_refs_init now job s1 of
             (Some p, s2) \<Rightarrow> (Panic p, s2)
           | (None, s2) \<Rightarrow> translate_refs_rules D t (Rules t) job (translate_refs_common D t job s2)))"

text \<open>
  What the frame claim assumes of the helpers. A job is \<open>owned from n\<close> when its struct
  and all it refers to lie in the store from address \<open>n\<close> on. A helper is \<open>confined\<close> when,
  handed such a job, it leaves the store below \<open>n\<close> as it is and the job owned from \<open>n\<close>:
  it writes only to what it is handed and to what it allocates, and puts no reference to
  another object into the job. The pointer that \<open>SGetDevContainer\<close> returns is into the
  job's own cells.
\<close>

definition ref_from :: "nat \<Rightarrow> nat option \<Rightarrow> bool" where
  "ref_from n r = (case r of None \<Rightarrow> True | Some a \<Rightarrow> n \<le> a)"

definition owned_from :: "nat \<Rightarrow> Cell list \<Rightarrow> nat \<Rightarrow> bool" where
  "owned_from n s job \<longleftrightarrow>
     n \<le> job \<and> n \<le> length s \<and> list_all (ref_from n) (job_refs (job_at s job))"

definition confined :: "nat \<Rightarrow> (Cell list \<Rightarrow> Cell list) \<Rightarrow> bool" where
  "confined job f \<longleftrightarrow>
     (\<forall>n s. owned_from n s job \<longrightarrow> take n (f s) = take n s \<and> owned_from n (f s) job)"

definition helpers_confined :: "StoreCollaborators \<Rightarrow> bool" where
  "helpers_confined D \<longleftrightarrow>
     (\<forall>job t. confined job (SCommonTranslation D t job)) \<and>
     (\<forall>job a. confined job (STranslateDevAnnotations D job a)) \<and>
     (\<forall>job ts. confined job (STranslateDevTolerations D job ts)) \<and>
     (\<forall>job name. confined job (STranslatePodAffinity D job name)) \<and>
     (\<forall>job name n s dc. owned_from n s job \<longrightarrow> SGetDevContainer D job name s = Some dc \<longrightarrow> n \<le> fst dc) \<and>
     (\<forall>job rule. confined job (STranslateOktetoVolumes D job rule)) \<and>
     (\<forall>job sc. confined job (STranslatePodSecurityContext D job sc)) \<and>
     (\<forall>job name secrets. confined job (STranslateOktetoDevSecret D job name secrets)) \<and>
     (\<forall>job. confined job (STranslateOktetoInitBinContainer D job)) \<and>
     (\<forall>job. confined job (STranslateOktetoBinVolume D job)) \<and>
     (\<forall>job n s dc rule. owned_from n s job \<longrightarrow> n \<le> fst dc \<longrightarrow>
        take n (STranslateDevContainer D dc rule s) = take n s \<and>
        owned_from n (STranslateDevContainer D dc rule s) job) \<and>
     (\<forall>job n s dc. owned_from n s job \<longrightarrow> n \<le> fst dc \<longrightarrow>
        take n (STranslateOktetoBinVolumeMounts D dc s) = take n s \<and>
        owned_from n (STranslateOktetoBinVolumeMounts D dc s) job)"

text \<open>A reference that lies inside the store.\<close>

definition ref_inside :: "Cell list \<Rightarrow> nat option \<Rightarrow> bool" where
  "ref_inside s r = (case r of None \<Rightarrow> True | Some a \<Rightarrow> a < length s)"

text \<open>
  An instance of the helpers on the store, and the job \<^verbatim>\<open>web\<close> of the concrete objects as
  cells: its maps and its container array at the addresses 0 to 4, its struct at 5.
\<close>

definition upd_container :: "nat \<times> nat \<Rightarrow> (Container \<Rightarrow> Container) \<Rightarrow> Cell list \<Rightarrow> Cell list" where
  "upd_container dc f s =
     (if fst dc < length s
      then (case s ! fst dc of
              ContainersCell cs \<Rightarrow> s[fst dc := ContainersCell (cs[snd dc := f (cs ! snd dc)])]
            | _ \<Rightarrow> s)
      else s)"

definition example_store_collaborators :: StoreCollaborators where
  "example_store_collaborators =
     \<lparr>SCommonTranslation =
        (\<lambda>t job s. case RAnnotations (RMeta (job_at s job)) of
                      None \<Rightarrow> s
                    | Some a \<Rightarrow> map_put a oktetoVersionAnnotation (Version t) s),
      STranslateDevAnnotations = (\<lambda>job a s. s),
      STranslateDevTolerations = (\<lambda>job ts s. s),
      STranslatePodAffinity = (\<lambda>job name s. s),
      SGetDevContainer =
        (\<lambda>job name s. case RContainers (job_at s job) of
                         None \<Rightarrow> None
                       | Some arr \<Rightarrow>
                           map_option (\<lambda>i. (arr, i))
                             (container_index name (read_containers s (Some arr)))),
      STranslateDevContainer = (\<lambda>dc rule. upd_container dc (\<lambda>c. c\<lparr>Image := RuleImage rule\<rparr>)),
      STranslateOktetoVolumes = (\<lambda>job rule s. s),
      STranslatePodSecurityContext = (\<lambda>job sc s. s),
      STranslateOktetoDevSecret = (\<lambda>job name secrets s. s),
      STranslateOktetoBinVolumeMounts =
        (\<lambda>dc. upd_container dc (\<lambda>c. c\<lparr>VolumeMounts := VolumeMounts c @ [''okteto-bin'']\<rparr>)),
      STranslateOktetoInitBinContainer = (\<lambda>job s. s),
      STranslateOktetoBinVolume = (\<lambda>job s. s)\<rparr>"

definition web_cells :: "Cell list" where
  "web_cells =
     [MapCell [''job-name'' \<mapsto> ''web'', ''controller-uid'' \<mapsto> ''u-1'', ''app'' \<mapsto> ''web''],
      MapCell [revisionAnnotation \<mapsto> ''3''],
      MapCell [''controller-uid'' \<mapsto> ''u-1''],
      MapCell [''job-name'' \<mapsto> ''web'', ''controller-uid'' \<mapsto> ''u-1'', ''app'' \<mapsto> ''web''],
      ContainersCell [\<lparr>ContainerName = ''app'', Image = ''prod:1'', VolumeMounts = []\<rparr>],
      JobCell
        \<lparr>RMeta = \<lparr>RName = ''web'', RResourceVersion = ''41'', RLabels = Some 0,
                  RAnnotations = Some 1\<rparr>,
         RSelector = Some 2,
         RTemplateMeta = \<lparr>RName = [], RResourceVersion = [], RLabels = Some 3,
                          RAnnotations = None\<rparr>,
         RContainers = Some 4, RInitContainers = None, RVolumes = None, RTolerations = None,
         RRunAs = None,
         RStatus = \<lparr>Active = 1, Succeeded = 0, Failed = 0, StartTime = Some 1600000000,
                    CompletionTime = None\<rparr>\<rparr>]"

section \<open>Decimal rendering is injective\<close>

lemma digit_char_inj: "d < 10 \<Longrightarrow> e < 10 \<Longrightarrow> digit_char d = digit_char e \<Longrightarrow> d = e"
  by (simp add: digit_char_def split: if_splits; arith)

lemma digit_char_not_minus: "digit_char d \<noteq> CHR ''-''"
  by (simp add: digit_char_def)

lemma digits_not_Nil: "digits n \<noteq> []"
  by (subst digits.simps) simp

lemma digits_length_ge2: "10 \<le> n \<Longrightarrow> 2 \<le> length (digits n)"
proof -
  assume "10 \<le> n"
  then have "digits n = digits (n div 10) @ [digit_char (n mod 10)]"
    by (subst digits.simps) simp
  moreover have "1 \<le> length (digits (n div 10))"
    using digits_not_Nil [of "n div 10"] by (cases "digits (n div 10)") auto
  ultimately show ?thesis by simp
qed

lemma digits_inj: "digits m = digits n \<Longrightarrow> m = n"
proof (induction m arbitrary: n rule: digits.induct)
  case (1 m)
  show ?case
  proof (cases "m < 10")
    case True
    then have dm: "digits m = [digit_char m]" by (subst digits.simps) simp
    show ?thesis
    proof (cases "n < 10")
      case True
      then have "digits n = [digit_char n]" by (subst digits.simps) simp
      with dm "1.prems" have "digit_char m = digit_char n" by simp
      with \<open>m < 10\<close> True show ?thesis by (rule digit_char_inj)
    next
      case False
      then have "2 \<le> length (digits n)" by (simp add: digits_length_ge2)
      with dm "1.prems" show ?thesis by simp
    qed
  next
    case False
    then have dm: "digits m = digits (m div 10) @ [digit_char (m mod 10)]"
      by (subst digits.simps) simp
    show ?thesis
    proof (cases "n < 10")
      case True
      then have "digits n = [digit_char n]" by (subst digits.simps) simp
      moreover from False have "2 \<le> length (digits m)" by (simp add: digits_length_ge2)
      ultimately show ?thesis using "1.prems" by simp
    next
      case nf: False
      then have dn: "digits n = digits (n div 10) @ [digit_char (n mod 10)]"
        by (subst digits.simps) simp
      from dm dn "1.prems" have a: "digits (m div 10) = digits (n div 10)"
        and b: "digit_char (m mod 10) = digit_char (n mod 10)" by simp_all
      from "1.IH" [OF False a] have q: "m div 10 = n div 10" .
      have r: "m mod 10 = n mod 10" by (rule digit_char_inj [OF _ _ b]) simp_all
      from q r show ?thesis by (metis div_mult_mod_eq)
    qed
  qed
qed

lemma digits_no_minus: "CHR ''-'' \<notin> set (digits n)"
proof (induction n rule: digits.induct)
  case (1 n)
  show ?case
  proof (cases "n < 10")
    case True
    then show ?thesis by (subst digits.simps) (simp add: digit_char_not_minus [symmetric])
  next
    case False
    with 1 show ?thesis by (subst digits.simps) (simp add: digit_char_not_minus [symmetric])
  qed
qed

lemma fmt_d_inj: "fmt_d a = fmt_d b \<Longrightarrow> a = b"
proof -
  assume e: "fmt_d a = fmt_d b"
  have hd_pos: "\<And>n. hd (digits n) \<noteq> CHR ''-''"
    using digits_no_minus digits_not_Nil by (metis hd_in_set)
  show ?thesis
  proof (cases "a < 0"; cases "b < 0")
    assume "a < 0" "b < 0"
    with e have "digits (nat (- a)) = digits (nat (- b))" by (simp add: fmt_d_def)
    then have "nat (- a) = nat (- b)" by (rule digits_inj)
    with \<open>a < 0\<close> \<open>b < 0\<close> show ?thesis by simp
  next
    assume "a < 0" "\<not> b < 0"
    with e have "CHR ''-'' # digits (nat (- a)) = digits (nat b)" by (simp add: fmt_d_def)
    then have "hd (digits (nat b)) = CHR ''-''" by (metis list.sel(1))
    with hd_pos show ?thesis by simp
  next
    assume "\<not> a < 0" "b < 0"
    with e have "digits (nat a) = CHR ''-'' # digits (nat (- b))" by (simp add: fmt_d_def)
    then have "hd (digits (nat a)) = CHR ''-''" by (metis list.sel(1))
    with hd_pos show ?thesis by simp
  next
    assume "\<not> a < 0" "\<not> b < 0"
    with e have "digits (nat a) = digits (nat b)" by (simp add: fmt_d_def)
    then have "nat a = nat b" by (rule digits_inj)
    with \<open>\<not> a < 0\<close> \<open>\<not> b < 0\<close> show ?thesis by simp
  qed
qed

section \<open>Properties of get\<close>

lemma get_Ok_valid: "get D c dev ns w = (Ok j, w1) \<Longrightarrow> j < length (heap w1)"
  by (auto simp: get_def Let_def split: if_splits sum.splits)

lemma get_creations: "creations (snd (get D c dev ns w)) = creations w"
  by (auto simp: get_def Let_def creations_def split: if_splits sum.splits)

lemma get_cancelled:
  "get D c dev ns (w\<lparr>cancelled := b\<rparr>) =
     (fst (get D c dev ns w), (snd (get D c dev ns w))\<lparr>cancelled := b\<rparr>)"
  by (auto simp: get_def Let_def split: if_splits sum.splits)

lemma get_not_cancelled: "fst (get D c dev ns w) \<noteq> Err ErrCancelled"
  by (auto simp: get_def Let_def split: if_splits sum.splits)

text \<open>
  Claim C1. A query by labels (the label set of the manifest is not empty) in a namespace
  that is named, whose list call answers with the matching objects: with exactly one
  object, \<open>get\<close> returns a pointer to that object; with none, the not-found error carrying
  the selector; with more than one, the ambiguity error carrying their number and the
  selector, and no candidate is returned.
\<close>

theorem get_by_labels:
  assumes "namespace \<noteq> []"
    and "\<not> map_len0 (DevLabels dev)"
    and "List c namespace (LabelsSelector D dev) = Inr items"
  shows "(length items = 1 \<longrightarrow>
            fst (get D c dev namespace w) = Ok (length (heap w)) \<and>
            heap (snd (get D c dev namespace w)) ! length (heap w) = items ! 0) \<and>
         (length items = 0 \<longrightarrow>
            fst (get D c dev namespace w) = Err (ErrNotFound (LabelsSelector D dev))) \<and>
         (1 < length items \<longrightarrow>
            fst (get D c dev namespace w) =
              Err (ErrAmbiguous (length items) (LabelsSelector D dev)))"
proof -
  have one: "length items = 1 \<Longrightarrow> heap (snd (get D c dev namespace w)) ! length (heap w) = items ! 0"
    using assms by (cases items) (simp_all add: get_def Let_def)
  show ?thesis
    using assms one by (simp add: get_def Let_def)
qed

theorem get_by_labels_witness:
  "fst (get example_collaborators example_client (labelled_dev ''web'') ''ns1'' world0) = Ok 0 \<and>
   heap (snd (get example_collaborators example_client (labelled_dev ''web'') ''ns1'' world0)) ! 0 = web \<and>
   fst (get example_collaborators example_client (labelled_dev ''none'') ''ns1'' world0) =
     Err (ErrNotFound ''app=none'') \<and>
   fst (get example_collaborators example_client (labelled_dev ''all'') ''ns1'' world0) =
     Err (ErrAmbiguous 2 ''app=all'')"
proof -
  have ns: "''ns1'' \<noteq> []" by simp
  have lab: "\<And>v. \<not> map_len0 (DevLabels (labelled_dev v))"
    by (simp add: labelled_dev_def map_len0_def)
  have sel: "\<And>v. LabelsSelector example_collaborators (labelled_dev v) = ''app='' @ v"
    by (simp add: example_collaborators_def labelled_dev_def map_index_def)
  have l1: "List example_client ''ns1'' (LabelsSelector example_collaborators (labelled_dev ''web'')) = Inr [web]"
    by (simp add: sel example_client_def)
  have l0: "List example_client ''ns1'' (LabelsSelector example_collaborators (labelled_dev ''none'')) = Inr []"
    by (simp add: sel example_client_def)
  have l2: "List example_client ''ns1'' (LabelsSelector example_collaborators (labelled_dev ''all'')) = Inr [web, db]"
    by (simp add: sel example_client_def)
  from get_by_labels [OF ns lab l1, of world0] get_by_labels [OF ns lab l0, of world0]
    get_by_labels [OF ns lab l2, of world0]
  show ?thesis by (simp add: sel world0_def)
qed

section \<open>Properties of translate\<close>

lemma translate_init_not_Err: "translate_init now j \<noteq> Err e"
  by (simp add: translate_init_def Let_def map_assign_def split: option.splits)

lemma translate_init_Panic_iff:
  "translate_init now j = Panic p \<longleftrightarrow>
     p = NilMapAssign \<and>
     (Labels (JobMeta j) = None \<or> Labels (TemplateMeta (Template (Spec j))) = None)"
  by (auto simp: translate_init_def Let_def map_assign_def split: option.splits)

lemma translate_init_Ok:
  assumes "translate_init now j = Ok j1"
  shows "Name (JobMeta j1) = ''okteto-'' @ Name (JobMeta j) @ ''-'' @ fmt_d now"
    and "ResourceVersion (JobMeta j1) = []"
    and "Status j1 = JobStatus_zero"
    and "Selector (Spec j1) = None"
    and "map_index (Labels (JobMeta j1)) ''job-name'' =
           Some (''okteto-'' @ Name (JobMeta j) @ ''-'' @ fmt_d now)"
    and "map_index (Labels (JobMeta j1)) ''controller-uid'' = None"
    and "map_index (Labels (TemplateMeta (Template (Spec j1)))) ''job-name'' =
           Some (''okteto-'' @ Name (JobMeta j) @ ''-'' @ fmt_d now)"
    and "map_index (Labels (TemplateMeta (Template (Spec j1)))) ''controller-uid'' = None"
    and "map_index (Annotations (JobMeta j1)) revisionAnnotation = None"
  using assms
  by (auto simp: translate_init_def Let_def map_assign_def map_delete_def map_index_def
      split: option.splits)

lemma translate_rules_not_Panic: "translate_rules D t rules job \<noteq> Panic p"
  by (induction rules arbitrary: job) (auto simp: Let_def split: option.splits)

lemma translate_rules_Ok:
  "translate_rules D t rules job = Ok job' \<Longrightarrow>
     JobMeta job' = JobMeta job \<and> Status job' = Status job \<and>
     Selector (Spec job') = Selector (Spec job) \<and>
     TemplateMeta (Template (Spec job')) = TemplateMeta (Template (Spec job))"
proof (induction rules arbitrary: job)
  case Nil
  then show ?case by simp
next
  case (Cons rule rules)
  from Cons.prems obtain i where
    "translate_rules D t rules
       (job\<lparr>Spec := (Spec job)\<lparr>Template := (Template (Spec job))\<lparr>TemplateSpec :=
          translate_rule D t rule i (TemplateSpec (Template (Spec job)))\<rparr>\<rparr>\<rparr>) = Ok job'"
    by (auto simp: Let_def split: option.splits)
  from Cons.IH [OF this] show ?case by simp
qed

lemma translate_common_fields:
  "Status (translate_common D t job) = Status job"
  "Selector (Spec (translate_common D t job)) = Selector (Spec job)"
  "JobMeta (translate_common D t job) =
     fst (CommonTranslation D t (JobMeta job) (TemplateMeta (Template (Spec job))))"
  "TemplateMeta (Template (Spec (translate_common D t job))) =
     TranslateDevAnnotations D
       (snd (CommonTranslation D t (JobMeta job) (TemplateMeta (Template (Spec job)))))
       (TAnnotations t)"
  by (simp_all add: translate_common_def Let_def split: prod.splits)

lemma translate_Ok:
  assumes "translate D now h old t = (Ok a, h')"
  obtains j1 where "old < length h" and "a = length h"
    and "translate_init now (h ! old) = Ok j1"
    and "translate_rules D t (Rules t) (translate_common D t j1) = Ok (h' ! a)"
proof -
  from assms have v: "old < length h" and a: "a = length h"
    by (auto simp: translate_def DeepCopy_def split: if_splits result.splits)
  from assms v obtain j1 j2 where 1: "translate_init now (h ! old) = Ok j1"
    and 2: "translate_rules D t (Rules t) (translate_common D t j1) = Ok j2"
    and 3: "h' = (h @ [h ! old])[length h := j2]"
    by (auto simp: translate_def DeepCopy_def nth_append split: if_splits result.splits)
  from 3 a have "h' ! a = j2" by simp
  with v a 1 2 that show thesis by blast
qed

lemma translate_name:
  assumes "translate D now h old t = (Ok a, h')" and "keeps_name D"
  shows "Name (JobMeta (h' ! a)) = ''okteto-'' @ Name (JobMeta (h ! old)) @ ''-'' @ fmt_d now"
proof -
  from assms(1) obtain j1 where 1: "translate_init now (h ! old) = Ok j1"
    and 2: "translate_rules D t (Rules t) (translate_common D t j1) = Ok (h' ! a)"
    by (rule translate_Ok)
  from translate_rules_Ok [OF 2] have "Name (JobMeta (h' ! a)) = Name (JobMeta (translate_common D t j1))"
    by simp
  also have "\<dots> = Name (JobMeta j1)"
    using assms(2) by (simp add: translate_common_fields keeps_name_def)
  finally show ?thesis by (simp add: translate_init_Ok(1) [OF 1])
qed

section \<open>The model on the concrete objects\<close>

lemma example_keeps_name: "keeps_name example_collaborators"
  by (simp add: keeps_name_def example_collaborators_def)

lemma example_identity_frame: "identity_frame example_collaborators"
  by (simp add: identity_frame_def same_identity_def same_job_labels_def
      example_collaborators_def set_entry_def map_index_def oktetoVersionAnnotation_def
      revisionAnnotation_def split: option.splits)

lemma fmt_d_5: "fmt_d 5 = ''5''"
  by (simp add: fmt_d_def digits.simps digit_char_def)

lemma fmt_d_6: "fmt_d 6 = ''6''"
  by (simp add: fmt_d_def digits.simps digit_char_def)

lemma example_init:
  "translate_init now web \<noteq> Panic p" "translate_init now web \<noteq> Err e"
  by (simp_all add: translate_init_Panic_iff translate_init_not_Err web_def web_labels_def)

lemma example_translate_fst:
  "fst (translate example_collaborators now [web] 0 example_translation) = Ok 1"
proof -
  obtain j1 where j1: "translate_init now web = Ok j1"
    using example_init by (cases "translate_init now web") auto
  have c: "Containers (TemplateSpec (Template (Spec j1))) = Containers (TemplateSpec (Template (Spec web)))"
    using j1 by (auto simp: translate_init_def Let_def map_assign_def split: option.splits)
  have "GetDevContainer example_collaborators
          (TemplateSpec (Template (Spec (translate_common example_collaborators example_translation j1)))) ''app'' = Some 0"
    using c by (simp add: translate_common_def Let_def example_collaborators_def web_def split: prod.splits)
  then have "\<exists>j2. translate_rules example_collaborators example_translation (Rules example_translation)
          (translate_common example_collaborators example_translation j1) = Ok j2"
    by (simp add: example_translation_def Let_def)
  then show ?thesis
    using j1 by (auto simp: translate_def DeepCopy_def)
qed

lemma example_translate_at:
  assumes "0 < length h" and "h ! 0 = web"
  shows "fst (translate example_collaborators now h 0 example_translation) = Ok (length h)"
proof -
  obtain j1 where j1: "translate_init now web = Ok j1"
    using example_init by (cases "translate_init now web") auto
  have c: "Containers (TemplateSpec (Template (Spec j1))) = Containers (TemplateSpec (Template (Spec web)))"
    using j1 by (auto simp: translate_init_def Let_def map_assign_def split: option.splits)
  have "GetDevContainer example_collaborators
          (TemplateSpec (Template (Spec (translate_common example_collaborators example_translation j1)))) ''app'' = Some 0"
    using c by (simp add: translate_common_def Let_def example_collaborators_def web_def split: prod.splits)
  then have "\<exists>j2. translate_rules example_collaborators example_translation (Rules example_translation)
          (translate_common example_collaborators example_translation j1) = Ok j2"
    by (simp add: example_translation_def Let_def)
  then show ?thesis
    using j1 assms by (auto simp: translate_def DeepCopy_def nth_append)
qed

lemma example_translate:
  "translate example_collaborators now [web] 0 example_translation =
     (Ok 1, snd (translate example_collaborators now [web] 0 example_translation))"
  using example_translate_fst [of now] by (simp add: prod_eq_iff)

lemma example_name:
  "Name (JobMeta (snd (translate example_collaborators 5 [web] 0 example_translation) ! 1)) =
     ''okteto-web-5''"
  using translate_name [OF example_translate example_keeps_name, of 5]
  by (simp add: fmt_d_5 web_def)

lemma example_job_translation:
  "job_translation example_collaborators job_dev main_dev 0 = example_translation"
  by (simp add: job_translation_def example_translation_def example_collaborators_def
      job_dev_def main_dev_def)

lemma example_get:
  "get example_collaborators example_client job_dev ''ns1'' w =
     (Ok (length (heap w)), w\<lparr>calls := calls w @ [CallGet ''ns1'' ''web''], heap := heap w @ [web]\<rparr>)"
  by (simp add: get_def job_dev_def map_len0_def example_client_def Let_def)

lemma example_run:
  assumes "heap w = []"
  shows "fst (CreateDevJob example_collaborators example_client 5 job_dev main_dev w) = Ok ''okteto-web-5''"
    and "creations (snd (CreateDevJob example_collaborators example_client 5 job_dev main_dev w)) =
           creations w + 1"
proof -
  have ns: "DevNamespace main_dev = ''ns1''" by (simp add: main_dev_def)
  have cr: "\<And>ns j. Create example_client ns j = Inr j" by (simp add: example_client_def)
  obtain h2 where t: "translate example_collaborators 5 [web] 0 example_translation = (Ok 1, h2)"
    using example_translate_fst [of 5]
    by (cases "translate example_collaborators 5 [web] 0 example_translation") auto
  with example_name have n: "Name (JobMeta (h2 ! 1)) = ''okteto-web-5''" by simp
  show "fst (CreateDevJob example_collaborators example_client 5 job_dev main_dev w) = Ok ''okteto-web-5''"
    using n by (simp add: CreateDevJob_def ns example_get assms example_job_translation cr t)
  show "creations (snd (CreateDevJob example_collaborators example_client 5 job_dev main_dev w)) =
           creations w + 1"
    by (simp add: CreateDevJob_def ns example_get assms example_job_translation cr creations_def t)
qed

section \<open>Properties of CreateDevJob\<close>

lemma CreateDevJob_cancelled:
  "CreateDevJob D c now job main (w\<lparr>cancelled := b\<rparr>) =
     (fst (CreateDevJob D c now job main w), (snd (CreateDevJob D c now job main w))\<lparr>cancelled := b\<rparr>)"
proof -
  obtain r w1 where g: "get D c job (DevNamespace main) w = (r, w1)" by (cases "get D c job (DevNamespace main) w")
  then have g': "get D c job (DevNamespace main) (w\<lparr>cancelled := b\<rparr>) = (r, w1\<lparr>cancelled := b\<rparr>)"
    by (simp add: get_cancelled)
  show ?thesis
    unfolding CreateDevJob_def g g'
    by (simp add: Let_def split: result.splits prod.splits sum.splits)
qed

lemma translate_not_cancelled: "translate D now h j t = (r, h') \<Longrightarrow> r \<noteq> Err ErrCancelled"
proof -
  have "translate_rules D t rules jb \<noteq> Err ErrCancelled" for rules jb
    by (induction rules arbitrary: jb) (auto simp: Let_def split: option.splits)
  then show "translate D now h j t = (r, h') \<Longrightarrow> r \<noteq> Err ErrCancelled"
    by (auto simp: translate_def translate_init_not_Err split: option.splits result.splits)
qed

lemma CreateDevJob_not_cancelled: "fst (CreateDevJob D c now job main w) \<noteq> Err ErrCancelled"
proof -
  obtain r w1 where g: "get D c job (DevNamespace main) w = (r, w1)" by (cases "get D c job (DevNamespace main) w")
  with get_not_cancelled [of D c job "DevNamespace main" w] have r: "r \<noteq> Err ErrCancelled" by simp
  show ?thesis
    unfolding CreateDevJob_def g using r
    by (auto simp: Let_def split: result.splits prod.splits sum.splits dest: translate_not_cancelled)
qed

lemma CreateDevJob_creates_only_after_translate:
  assumes "fst (CreateDevJob D c now job main w) = Err (ErrContainerNotFound x y)"
  shows "creations (snd (CreateDevJob D c now job main w)) = creations w"
proof -
  obtain r w1 where g: "get D c job (DevNamespace main) w = (r, w1)" by (cases "get D c job (DevNamespace main) w")
  with get_creations [of D c job "DevNamespace main" w] have c: "creations w1 = creations w" by simp
  have h: "\<And>h. creations (w1\<lparr>heap := h\<rparr>) = creations w1" by (simp add: creations_def)
  show ?thesis
    using assms unfolding CreateDevJob_def g
    by (auto simp: Let_def c h split: result.splits prod.splits sum.splits)
qed

section \<open>The claims about translate\<close>

text \<open>
  Claim C3, as the code has it. The name of the derived object is \<^verbatim>\<open>okteto-\<close>, the name
  of the source job, a dash and the Unix time in decimal, provided the metadata helper
  leaves the name alone. The middle part is the source job's name, not the session's
  (\<open>TName\<close>).
\<close>

theorem derived_name:
  assumes "translate D now h old t = (Ok a, h')" and "keeps_name D"
  shows "Name (JobMeta (h' ! a)) = ''okteto-'' @ Name (JobMeta (h ! old)) @ ''-'' @ fmt_d now"
  using assms by (rule translate_name)

theorem derived_name_witness:
  "Name (JobMeta (snd (translate example_collaborators 5 [web] 0 example_translation) ! 1)) =
     ''okteto-'' @ ''web'' @ ''-'' @ ''5''"
  using derived_name [OF example_translate example_keeps_name, of 5]
  by (simp add: fmt_d_5 web_def)

text \<open>
  Claim C3 as worded fails: the job \<^verbatim>\<open>web\<close> translated for the session \<^verbatim>\<open>sess\<close> at time 5
  is named \<^verbatim>\<open>okteto-web-5\<close>, which is not prefix, session name and time.
\<close>

theorem derived_name_not_session:
  "fst (translate example_collaborators 5 [web] 0 example_translation) = Ok 1 \<and>
   TName example_translation = ''sess'' \<and>
   Name (JobMeta (snd (translate example_collaborators 5 [web] 0 example_translation) ! 1)) =
     ''okteto-web-5'' \<and>
   Name (JobMeta (snd (translate example_collaborators 5 [web] 0 example_translation) ! 1)) \<noteq>
     ''okteto-'' @ TName example_translation @ ''-'' @ fmt_d 5"
proof -
  have s: "TName example_translation = ''sess''" by (simp add: example_translation_def)
  show ?thesis
    using example_translate_fst [of 5] example_name by (simp add: fmt_d_5 s)
qed

text \<open>
  Claim C4. Whatever the translation and its rules, the object that \<open>translate\<close> returns
  has the zero status, an empty resource version, no revision annotation, a nil selector,
  no \<^verbatim>\<open>controller-uid\<close> label on the object or on its pod template, and on both the
  \<^verbatim>\<open>job-name\<close> label set to the generated name; the two metadata helpers are assumed to
  leave these fields alone (\<open>identity_frame\<close>).
\<close>

theorem derived_identity_cleared:
  assumes "translate D now h old t = (Ok a, h')" and "identity_frame D"
  shows "Status (h' ! a) = JobStatus_zero \<and>
         ResourceVersion (JobMeta (h' ! a)) = [] \<and>
         map_index (Annotations (JobMeta (h' ! a))) revisionAnnotation = None \<and>
         Selector (Spec (h' ! a)) = None \<and>
         map_index (Labels (JobMeta (h' ! a))) ''controller-uid'' = None \<and>
         map_index (Labels (TemplateMeta (Template (Spec (h' ! a))))) ''controller-uid'' = None \<and>
         map_index (Labels (JobMeta (h' ! a))) ''job-name'' =
           Some (''okteto-'' @ Name (JobMeta (h ! old)) @ ''-'' @ fmt_d now) \<and>
         map_index (Labels (TemplateMeta (Template (Spec (h' ! a))))) ''job-name'' =
           Some (''okteto-'' @ Name (JobMeta (h ! old)) @ ''-'' @ fmt_d now)"
proof -
  from assms(1) obtain j1 where 1: "translate_init now (h ! old) = Ok j1"
    and 2: "translate_rules D t (Rules t) (translate_common D t j1) = Ok (h' ! a)"
    by (rule translate_Ok)
  let ?c = "translate_common D t j1"
  note r = translate_rules_Ok [OF 2]
  note i = translate_init_Ok [OF 1]
  from assms(2) have m: "same_identity (JobMeta j1) (JobMeta ?c)"
    by (simp add: identity_frame_def translate_common_fields)
  from assms(2) have "same_job_labels (TemplateMeta (Template (Spec j1)))
      (snd (CommonTranslation D t (JobMeta j1) (TemplateMeta (Template (Spec j1)))))"
    and "same_job_labels (snd (CommonTranslation D t (JobMeta j1) (TemplateMeta (Template (Spec j1)))))
      (TemplateMeta (Template (Spec ?c)))"
    by (simp_all add: identity_frame_def translate_common_fields)
  then have tm: "same_job_labels (TemplateMeta (Template (Spec j1))) (TemplateMeta (Template (Spec ?c)))"
    by (simp add: same_job_labels_def)
  have "Status (h' ! a) = JobStatus_zero"
    using r i(3) by (simp add: translate_common_fields)
  moreover have "ResourceVersion (JobMeta (h' ! a)) = []"
    using r m i(2) by (simp add: same_identity_def)
  moreover have "map_index (Annotations (JobMeta (h' ! a))) revisionAnnotation = None"
    using r m i(9) by (simp add: same_identity_def)
  moreover have "Selector (Spec (h' ! a)) = None"
    using r i(4) by (simp add: translate_common_fields)
  moreover have "map_index (Labels (JobMeta (h' ! a))) ''controller-uid'' = None"
    using r m i(6) by (simp add: same_identity_def same_job_labels_def)
  moreover have "map_index (Labels (TemplateMeta (Template (Spec (h' ! a))))) ''controller-uid'' = None"
    using r tm i(8) by (simp add: same_job_labels_def)
  moreover have "map_index (Labels (JobMeta (h' ! a))) ''job-name'' =
           Some (''okteto-'' @ Name (JobMeta (h ! old)) @ ''-'' @ fmt_d now)"
    using r m i(5) by (simp add: same_identity_def same_job_labels_def)
  moreover have "map_index (Labels (TemplateMeta (Template (Spec (h' ! a))))) ''job-name'' =
           Some (''okteto-'' @ Name (JobMeta (h ! old)) @ ''-'' @ fmt_d now)"
    using r tm i(7) by (simp add: same_job_labels_def)
  ultimately show ?thesis by blast
qed

theorem derived_identity_cleared_witness:
  "Status (snd (translate example_collaborators 5 [web] 0 example_translation) ! 1) = JobStatus_zero \<and>
   ResourceVersion (JobMeta (snd (translate example_collaborators 5 [web] 0 example_translation) ! 1)) = [] \<and>
   map_index (Annotations (JobMeta (snd (translate example_collaborators 5 [web] 0 example_translation) ! 1)))
     revisionAnnotation = None \<and>
   Selector (Spec (snd (translate example_collaborators 5 [web] 0 example_translation) ! 1)) = None \<and>
   map_index (Labels (JobMeta (snd (translate example_collaborators 5 [web] 0 example_translation) ! 1)))
     ''controller-uid'' = None \<and>
   map_index (Labels (JobMeta (snd (translate example_collaborators 5 [web] 0 example_translation) ! 1)))
     ''job-name'' = Some ''okteto-web-5'' \<and>
   map_index (Labels (JobMeta web)) ''controller-uid'' = Some ''u-1'' \<and>
   ResourceVersion (JobMeta web) = ''41''"
proof -
  have src: "map_index (Labels (JobMeta web)) ''controller-uid'' = Some ''u-1''"
    "ResourceVersion (JobMeta web) = ''41''"
    by (simp_all add: web_def web_labels_def map_index_def)
  from derived_identity_cleared [OF example_translate example_identity_frame, of 5] src
  show ?thesis by (simp add: fmt_d_5 web_def)
qed

section \<open>The frame of translate on the store with references\<close>

lemma job_refs_nil: "list_all (ref_from n) (job_refs nil_job)"
  by (simp add: job_refs_def nil_job_def ref_from_def)

lemma job_at_map_put: "job_at (map_put a k v s) job = job_at s job"
  by (auto simp: job_at_def map_put_def nth_list_update split: Cell.splits)

lemma job_at_map_drop: "job_at (map_drop r k s) job = job_at s job"
  by (auto simp: job_at_def map_drop_def nth_list_update split: Cell.splits option.splits)

lemma take_map_put: "n \<le> a \<Longrightarrow> take n (map_put a k v s) = take n s"
  by (simp add: map_put_def split: Cell.splits)

lemma take_map_drop: "ref_from n r \<Longrightarrow> take n (map_drop r k s) = take n s"
  by (simp add: map_drop_def ref_from_def split: Cell.splits option.splits)

lemma length_map_put: "length (map_put a k v s) = length s"
  by (simp add: map_put_def split: Cell.splits)

lemma length_map_drop: "length (map_drop r k s) = length s"
  by (simp add: map_drop_def split: Cell.splits option.splits)

lemma length_upd_job: "length (upd_job a f s) = length s"
  by (simp add: upd_job_def split: Cell.splits)

lemma take_upd_job: "n \<le> a \<Longrightarrow> take n (upd_job a f s) = take n s"
  by (simp add: upd_job_def split: Cell.splits)

lemma job_at_upd_job:
  "job_at (upd_job a f s) a = (if a < length s \<and> (\<exists>j. s ! a = JobCell j) then f (job_at s a) else job_at s a)"
  by (auto simp: job_at_def upd_job_def split: Cell.splits)

lemma owned_map_put:
  "owned_from n s job \<Longrightarrow> n \<le> a \<Longrightarrow>
     take n (map_put a k v s) = take n s \<and> owned_from n (map_put a k v s) job"
  by (simp add: owned_from_def job_at_map_put take_map_put length_map_put)

lemma owned_map_drop:
  "owned_from n s job \<Longrightarrow> ref_from n r \<Longrightarrow>
     take n (map_drop r k s) = take n s \<and> owned_from n (map_drop r k s) job"
  by (simp add: owned_from_def job_at_map_drop take_map_drop length_map_drop)

lemma owned_upd_job:
  assumes "owned_from n s job"
    and "\<And>j. list_all (ref_from n) (job_refs j) \<Longrightarrow> list_all (ref_from n) (job_refs (f j))"
  shows "take n (upd_job job f s) = take n s \<and> owned_from n (upd_job job f s) job"
  using assms by (simp add: owned_from_def take_upd_job length_upd_job job_at_upd_job)

lemma owned_refs:
  assumes "owned_from n s job"
  shows "ref_from n (RLabels (RMeta (job_at s job)))"
    and "ref_from n (RAnnotations (RMeta (job_at s job)))"
    and "ref_from n (RLabels (RTemplateMeta (job_at s job)))"
    and "ref_from n (RTolerations (job_at s job))"
  using assms by (simp_all add: owned_from_def job_refs_def)

lemma copy_cells_frame:
  "copy_cells rs s = (rs', s') \<Longrightarrow> n \<le> length s \<Longrightarrow>
     length rs' = length rs \<and> take n s' = take n s \<and> n \<le> length s' \<and> list_all (ref_from n) rs'"
proof (induction rs arbitrary: s rs' s')
  case Nil
  then show ?case by simp
next
  case (Cons r rs)
  obtain r1 s1 where c: "copy_cell r s = (r1, s1)" by (cases "copy_cell r s")
  obtain rs2 s2 where cs: "copy_cells rs s1 = (rs2, s2)" by (cases "copy_cells rs s1")
  from c Cons.prems(2) have 1: "take n s1 = take n s" "n \<le> length s1" "ref_from n r1"
    by (auto simp: copy_cell_def ref_from_def split: option.splits)
  from Cons.IH [OF cs 1(2)] 1 c cs Cons.prems(1) show ?case by auto
qed

lemma job_refs_with_refs:
  assumes "length rs = 9"
  shows "job_refs (with_refs j rs) = rs"
proof -
  from assms obtain a b c d e f g h i where "rs = [a, b, c, d, e, f, g, h, i]"
    by (auto simp: numeral_eq_Suc length_Suc_conv)
  then show ?thesis by (simp add: job_refs_def with_refs_def)
qed

lemma DeepCopy_refs_fresh:
  assumes "DeepCopy_refs s old = Some (job, s1)"
  shows "take (length s) s1 = s" and "owned_from (length s) s1 job"
proof -
  from assms obtain j rs s0 where j: "s ! old = JobCell j"
    and c: "copy_cells (job_refs j) s = (rs, s0)"
    and r: "job = length s0" "s1 = s0 @ [JobCell (with_refs j rs)]"
    by (auto simp: DeepCopy_refs_def split: if_splits Cell.splits prod.splits)
  from copy_cells_frame [OF c, of "length s"]
  have f: "length rs = 9" "take (length s) s0 = s" "length s \<le> length s0"
    "list_all (ref_from (length s)) rs"
    by (simp_all add: job_refs_def)
  from f r show "take (length s) s1 = s" by simp
  have "job_at s1 job = with_refs j rs" using r by (simp add: job_at_def)
  with f r show "owned_from (length s) s1 job"
    by (simp add: owned_from_def job_refs_with_refs)
qed

lemma refs_keep:
  "list_all (ref_from n) (job_refs j) \<Longrightarrow> list_all (ref_from n) (job_refs (j\<lparr>RMeta := (RMeta j)\<lparr>RName := x\<rparr>\<rparr>))"
  "list_all (ref_from n) (job_refs j) \<Longrightarrow> list_all (ref_from n) (job_refs (j\<lparr>RStatus := y\<rparr>))"
  "list_all (ref_from n) (job_refs j) \<Longrightarrow> list_all (ref_from n) (job_refs (j\<lparr>RMeta := (RMeta j)\<lparr>RResourceVersion := x\<rparr>\<rparr>))"
  "list_all (ref_from n) (job_refs j) \<Longrightarrow> list_all (ref_from n) (job_refs (j\<lparr>RSelector := None\<rparr>))"
  "list_all (ref_from n) (job_refs j) \<Longrightarrow> n \<le> a \<Longrightarrow> list_all (ref_from n) (job_refs (j\<lparr>RTolerations := Some a\<rparr>))"
  by (simp_all add: job_refs_def ref_from_def)

lemma translate_refs_init_frame:
  assumes "owned_from n s job" and "translate_refs_init now job s = (p, s')"
  shows "take n s' = take n s \<and> owned_from n s' job"
proof -
  let ?name = "''okteto-'' @ RName (RMeta (job_at s job)) @ ''-'' @ fmt_d now"
  let ?s1 = "upd_job job (\<lambda>j. j\<lparr>RMeta := (RMeta j)\<lparr>RName := ?name\<rparr>\<rparr>) s"
  let ?s2 = "upd_job job (\<lambda>j. j\<lparr>RStatus := JobStatus_zero\<rparr>) ?s1"
  let ?s3 = "upd_job job (\<lambda>j. j\<lparr>RMeta := (RMeta j)\<lparr>RResourceVersion := []\<rparr>\<rparr>) ?s2"
  have 1: "take n ?s1 = take n s \<and> owned_from n ?s1 job"
    by (rule owned_upd_job [OF assms(1)]) (rule refs_keep)
  have 2: "take n ?s2 = take n ?s1 \<and> owned_from n ?s2 job"
    by (rule owned_upd_job) (use 1 in simp, rule refs_keep)
  have 3: "take n ?s3 = take n ?s2 \<and> owned_from n ?s3 job"
    by (rule owned_upd_job) (use 2 in simp, rule refs_keep)
  from 1 2 3 have f3: "take n ?s3 = take n s" "owned_from n ?s3 job" by simp_all
  show ?thesis
  proof (cases "RLabels (RMeta (job_at ?s3 job))")
    case None
    with assms(2) have "s' = ?s3" by (simp add: translate_refs_init_def Let_def)
    with f3 show ?thesis by simp
  next
    case (Some l)
    let ?s4 = "map_put l ''job-name'' ?name ?s3"
    let ?s5 = "map_drop (RLabels (RMeta (job_at ?s4 job))) ''controller-uid'' ?s4"
    let ?s6 = "upd_job job (\<lambda>j. j\<lparr>RSelector := None\<rparr>) ?s5"
    from owned_refs(1) [OF f3(2)] Some have l: "n \<le> l" by (simp add: ref_from_def)
    from owned_map_put [OF f3(2) l] have 4: "take n ?s4 = take n ?s3" "owned_from n ?s4 job"
      by simp_all
    from owned_map_drop [OF 4(2) owned_refs(1) [OF 4(2)]]
    have 5: "take n ?s5 = take n ?s4" "owned_from n ?s5 job" by simp_all
    have 6: "take n ?s6 = take n ?s5 \<and> owned_from n ?s6 job"
      by (rule owned_upd_job [OF 5(2)]) (rule refs_keep)
    from f3 4 5 6 have f6: "take n ?s6 = take n s" "owned_from n ?s6 job" by simp_all
    show ?thesis
    proof (cases "RLabels (RTemplateMeta (job_at ?s6 job))")
      case None
      with assms(2) Some have "s' = ?s6" by (simp add: translate_refs_init_def Let_def)
      with f6 show ?thesis by simp
    next
      case tml: (Some tml)
      let ?s7 = "map_put tml ''job-name'' ?name ?s6"
      let ?s8 = "map_drop (RLabels (RTemplateMeta (job_at ?s7 job))) ''controller-uid'' ?s7"
      let ?s9 = "map_drop (RAnnotations (RMeta (job_at ?s8 job))) revisionAnnotation ?s8"
      from owned_refs(3) [OF f6(2)] tml have t: "n \<le> tml" by (simp add: ref_from_def)
      from owned_map_put [OF f6(2) t] have 7: "take n ?s7 = take n ?s6" "owned_from n ?s7 job"
        by simp_all
      from owned_map_drop [OF 7(2) owned_refs(3) [OF 7(2)]]
      have 8: "take n ?s8 = take n ?s7" "owned_from n ?s8 job" by simp_all
      from owned_map_drop [OF 8(2) owned_refs(2) [OF 8(2)]]
      have 9: "take n ?s9 = take n ?s8" "owned_from n ?s9 job" by simp_all
      from assms(2) Some tml have "s' = ?s9" by (simp add: translate_refs_init_def Let_def)
      with f6 7 8 9 show ?thesis by simp
    qed
  qed
qed

lemma confinedD: "confined job f \<Longrightarrow> owned_from n s job \<Longrightarrow> take n (f s) = take n s \<and> owned_from n (f s) job"
  by (simp add: confined_def)

lemma append_tolerations_frame:
  assumes "owned_from n s job"
  shows "take n (append_tolerations job ts s) = take n s \<and> owned_from n (append_tolerations job ts s) job"
proof (cases "ts = []")
  case True
  with assms show ?thesis by (simp add: append_tolerations_def)
next
  case False
  let ?c = "TolerationsCell (read_tolerations s (RTolerations (job_at s job)) @ ts)"
  from assms have n: "n \<le> length s" "n \<le> job" by (simp_all add: owned_from_def)
  have j: "job_at (s @ [?c]) job = job_at s job"
    by (auto simp: job_at_def nth_append less_Suc_eq)
  from assms j n have o: "owned_from n (s @ [?c]) job" by (simp add: owned_from_def)
  have "take n (upd_job job (\<lambda>j. j\<lparr>RTolerations := Some (length s)\<rparr>) (s @ [?c])) = take n (s @ [?c])
      \<and> owned_from n (upd_job job (\<lambda>j. j\<lparr>RTolerations := Some (length s)\<rparr>) (s @ [?c])) job"
    by (rule owned_upd_job [OF o]) (rule refs_keep, assumption, rule n)
  with False n show ?thesis by (simp add: append_tolerations_def)
qed

lemma translate_refs_common_frame:
  assumes "helpers_confined D" and "owned_from n s job"
  shows "take n (translate_refs_common D t job s) = take n s \<and>
         owned_from n (translate_refs_common D t job s) job"
proof -
  let ?s1 = "SCommonTranslation D t job s"
  let ?s2 = "STranslateDevAnnotations D job (TAnnotations t) ?s1"
  let ?s3 = "STranslateDevTolerations D job (TTolerations t) ?s2"
  let ?s4 = "STranslatePodAffinity D job (TName t) ?s3"
  from assms(1) have c: "confined job (SCommonTranslation D t job)"
    "confined job (STranslateDevAnnotations D job (TAnnotations t))"
    "confined job (STranslateDevTolerations D job (TTolerations t))"
    "confined job (STranslatePodAffinity D job (TName t))"
    by (simp_all add: helpers_confined_def)
  from confinedD [OF c(1) assms(2)] have 1: "take n ?s1 = take n s" "owned_from n ?s1 job" by simp_all
  from confinedD [OF c(2) 1(2)] have 2: "take n ?s2 = take n ?s1" "owned_from n ?s2 job" by simp_all
  from confinedD [OF c(3) 2(2)] have 3: "take n ?s3 = take n ?s2" "owned_from n ?s3 job" by simp_all
  from confinedD [OF c(4) 3(2)] have 4: "take n ?s4 = take n ?s3" "owned_from n ?s4 job" by simp_all
  from append_tolerations_frame [OF 4(2), of "TTolerations t"] 1 2 3 4
  show ?thesis by (simp add: translate_refs_common_def Let_def)
qed

lemma translate_refs_rule_frame:
  assumes "helpers_confined D" and "owned_from n s job" and "n \<le> fst dc"
  shows "take n (translate_refs_rule D t rule job dc s) = take n s \<and>
         owned_from n (translate_refs_rule D t rule job dc s) job"
proof -
  let ?s1 = "STranslateDevContainer D dc rule s"
  let ?s2 = "STranslateOktetoVolumes D job rule ?s1"
  let ?s3 = "STranslatePodSecurityContext D job (SecurityContext rule) ?s2"
  let ?s4 = "STranslateOktetoDevSecret D job (TName t) (Secrets rule) ?s3"
  let ?s5 = "STranslateOktetoBinVolumeMounts D dc ?s4"
  let ?s6 = "STranslateOktetoInitBinContainer D job ?s5"
  let ?s7 = "STranslateOktetoBinVolume D job ?s6"
  from assms(1) have c: "confined job (STranslateOktetoVolumes D job rule)"
    "confined job (STranslatePodSecurityContext D job (SecurityContext rule))"
    "confined job (STranslateOktetoDevSecret D job (TName t) (Secrets rule))"
    "confined job (STranslateOktetoInitBinContainer D job)"
    "confined job (STranslateOktetoBinVolume D job)"
    by (simp_all add: helpers_confined_def)
  from assms(1) have "\<forall>job n s dc rule. owned_from n s job \<longrightarrow> n \<le> fst dc \<longrightarrow>
        take n (STranslateDevContainer D dc rule s) = take n s \<and>
        owned_from n (STranslateDevContainer D dc rule s) job"
    by (simp add: helpers_confined_def)
  with assms(3) have dcw: "\<And>s. owned_from n s job \<Longrightarrow>
        take n (STranslateDevContainer D dc rule s) = take n s \<and>
        owned_from n (STranslateDevContainer D dc rule s) job"
    by blast
  from assms(1) have "\<forall>job n s dc. owned_from n s job \<longrightarrow> n \<le> fst dc \<longrightarrow>
        take n (STranslateOktetoBinVolumeMounts D dc s) = take n s \<and>
        owned_from n (STranslateOktetoBinVolumeMounts D dc s) job"
    by (simp add: helpers_confined_def)
  with assms(3) have bvm: "\<And>s. owned_from n s job \<Longrightarrow>
        take n (STranslateOktetoBinVolumeMounts D dc s) = take n s \<and>
        owned_from n (STranslateOktetoBinVolumeMounts D dc s) job"
    by blast
  from dcw [OF assms(2)] have 1: "take n ?s1 = take n s" "owned_from n ?s1 job" by simp_all
  from confinedD [OF c(1) 1(2)] have 2: "take n ?s2 = take n ?s1" "owned_from n ?s2 job" by simp_all
  from confinedD [OF c(2) 2(2)] have 3: "take n ?s3 = take n ?s2" "owned_from n ?s3 job" by simp_all
  from confinedD [OF c(3) 3(2)] have 4: "take n ?s4 = take n ?s3" "owned_from n ?s4 job" by simp_all
  from bvm [OF 4(2)] have 5: "take n ?s5 = take n ?s4" "owned_from n ?s5 job" by simp_all
  from confinedD [OF c(4) 5(2)] have 6: "take n ?s6 = take n ?s5" "owned_from n ?s6 job" by simp_all
  from confinedD [OF c(5) 6(2)] have 7: "take n ?s7 = take n ?s6" "owned_from n ?s7 job" by simp_all
  from 1 2 3 4 5 6 7 show ?thesis by (simp add: translate_refs_rule_def Let_def)
qed

lemma translate_refs_rules_frame:
  assumes "helpers_confined D"
  shows "owned_from n s job \<Longrightarrow> take n (snd (translate_refs_rules D t rules job s)) = take n s"
proof (induction rules arbitrary: s)
  case Nil
  then show ?case by simp
next
  case (Cons rule rules)
  show ?case
  proof (cases "SGetDevContainer D job (RuleContainer rule) s")
    case None
    then show ?thesis by simp
  next
    case (Some dc)
    from assms have "\<forall>job name n s dc. owned_from n s job \<longrightarrow>
        SGetDevContainer D job name s = Some dc \<longrightarrow> n \<le> fst dc"
      by (simp add: helpers_confined_def)
    with Cons.prems Some have "n \<le> fst dc" by blast
    from translate_refs_rule_frame [OF assms Cons.prems this, of t rule]
    have "take n (translate_refs_rule D t rule job dc s) = take n s"
      and "owned_from n (translate_refs_rule D t rule job dc s) job" by simp_all
    with Cons.IH [of "translate_refs_rule D t rule job dc s"] Some show ?thesis by simp
  qed
qed

lemma translate_refs_frame:
  assumes "helpers_confined D"
  shows "take (length s) (snd (translate_refs D now s old t)) = s"
proof (cases "DeepCopy_refs s old")
  case None
  then show ?thesis by (simp add: translate_refs_def)
next
  case (Some c)
  obtain job s1 where c: "c = (job, s1)" by (cases c)
  from DeepCopy_refs_fresh [OF Some [unfolded c]]
  have 1: "take (length s) s1 = s" "owned_from (length s) s1 job" by simp_all
  obtain p s2 where i: "translate_refs_init now job s1 = (p, s2)"
    by (cases "translate_refs_init now job s1")
  from translate_refs_init_frame [OF 1(2) i]
  have 2: "take (length s) s2 = take (length s) s1" "owned_from (length s) s2 job" by simp_all
  show ?thesis
  proof (cases p)
    case (Some q)
    with i 1 2 \<open>DeepCopy_refs s old = Some c\<close> c show ?thesis by (simp add: translate_refs_def)
  next
    case None
    from translate_refs_common_frame [OF assms 2(2), of t]
    have 3: "take (length s) (translate_refs_common D t job s2) = take (length s) s2"
      "owned_from (length s) (translate_refs_common D t job s2) job" by simp_all
    from translate_refs_rules_frame [OF assms 3(2), of t "Rules t"] 1 2 3
    have "take (length s) (snd (translate_refs_rules D t (Rules t) job (translate_refs_common D t job s2))) = s"
      by simp
    with None i \<open>DeepCopy_refs s old = Some c\<close> c show ?thesis by (simp add: translate_refs_def)
  qed
qed

lemma snapshot_frame:
  assumes "take (length s) s' = s" and "old < length s"
    and "list_all (ref_inside s) (job_refs (job_at s old))"
  shows "snapshot s' old = snapshot s old"
proof -
  from assms(1) have len: "length s \<le> length s'"
    by (metis length_take min.cobounded1)
  have nth: "s' ! a = s ! a" if "a < length s" for a
    using that assms(1) by (metis nth_take)
  have j: "job_at s' old = job_at s old"
    using assms(2) len nth by (simp add: job_at_def)
  have rm: "read_map s' r = read_map s r" if "ref_inside s r" for r
    using that len nth by (auto simp: read_map_def ref_inside_def split: option.splits)
  have rc: "read_containers s' r = read_containers s r" if "ref_inside s r" for r
    using that len nth by (auto simp: read_containers_def ref_inside_def split: option.splits)
  have rv: "read_volumes s' r = read_volumes s r" if "ref_inside s r" for r
    using that len nth by (auto simp: read_volumes_def ref_inside_def split: option.splits)
  have rt: "read_tolerations s' r = read_tolerations s r" if "ref_inside s r" for r
    using that len nth by (auto simp: read_tolerations_def ref_inside_def split: option.splits)
  from assms(3) have i: "ref_inside s (RLabels (RMeta (job_at s old)))"
    "ref_inside s (RAnnotations (RMeta (job_at s old)))"
    "ref_inside s (RSelector (job_at s old))"
    "ref_inside s (RLabels (RTemplateMeta (job_at s old)))"
    "ref_inside s (RAnnotations (RTemplateMeta (job_at s old)))"
    "ref_inside s (RContainers (job_at s old))"
    "ref_inside s (RInitContainers (job_at s old))"
    "ref_inside s (RVolumes (job_at s old))"
    "ref_inside s (RTolerations (job_at s old))"
    by (simp_all add: job_refs_def)
  have sel: "(case RSelector (job_at s old) of None \<Rightarrow> None | Some r \<Rightarrow> Some (read_map s' (Some r))) =
      (case RSelector (job_at s old) of None \<Rightarrow> None | Some r \<Rightarrow> Some (read_map s (Some r)))"
    using rm [OF i(3)] by (cases "RSelector (job_at s old)") simp_all
  show ?thesis
    unfolding snapshot_def snapshot_meta_def Let_def j
    by (simp only: rm [OF i(1)] rm [OF i(2)] rm [OF i(4)] rm [OF i(5)] rc [OF i(6)] rc [OF i(7)]
        rv [OF i(8)] rt [OF i(9)] sel)
qed

lemma confined_id: "confined job (\<lambda>s. s)"
  by (simp add: confined_def)

lemma owned_refs_containers: "owned_from n s job \<Longrightarrow> ref_from n (RContainers (job_at s job))"
  by (simp add: owned_from_def job_refs_def)

lemma job_at_upd_container: "job_at (upd_container dc f s) job = job_at s job"
  by (auto simp: job_at_def upd_container_def nth_list_update split: Cell.splits)

lemma owned_upd_container:
  "owned_from n s job \<Longrightarrow> n \<le> fst dc \<Longrightarrow>
     take n (upd_container dc f s) = take n s \<and> owned_from n (upd_container dc f s) job"
proof -
  assume o: "owned_from n s job" and n: "n \<le> fst dc"
  have l: "length (upd_container dc f s) = length s"
    by (simp add: upd_container_def split: Cell.splits)
  have t: "take n (upd_container dc f s) = take n s"
    using n by (simp add: upd_container_def split: Cell.splits)
  from o l t show ?thesis by (simp add: owned_from_def job_at_upd_container)
qed

lemma example_helpers_confined: "helpers_confined example_store_collaborators"
proof -
  have 1: "confined job (SCommonTranslation example_store_collaborators t job)" for job t
    unfolding confined_def
  proof (intro allI impI)
    fix n s
    assume o: "owned_from n s job"
    show "take n (SCommonTranslation example_store_collaborators t job s) = take n s \<and>
          owned_from n (SCommonTranslation example_store_collaborators t job s) job"
    proof (cases "RAnnotations (RMeta (job_at s job))")
      case None
      with o show ?thesis by (simp add: example_store_collaborators_def)
    next
      case (Some a)
      with owned_refs(2) [OF o] have "n \<le> a" by (simp add: ref_from_def)
      from owned_map_put [OF o this] Some show ?thesis
        by (simp add: example_store_collaborators_def)
    qed
  qed
  have 2: "n \<le> fst dc"
    if "owned_from n s job" "SGetDevContainer example_store_collaborators job name s = Some dc"
    for job name n s dc
    using that owned_refs_containers [OF that(1)]
    by (auto simp: example_store_collaborators_def ref_from_def split: option.splits)
  have 3: "take n (STranslateDevContainer example_store_collaborators dc rule s) = take n s \<and>
        owned_from n (STranslateDevContainer example_store_collaborators dc rule s) job"
    if "owned_from n s job" "n \<le> fst dc" for job n s dc rule
    using owned_upd_container [OF that] by (simp add: example_store_collaborators_def)
  have 4: "take n (STranslateOktetoBinVolumeMounts example_store_collaborators dc s) = take n s \<and>
        owned_from n (STranslateOktetoBinVolumeMounts example_store_collaborators dc s) job"
    if "owned_from n s job" "n \<le> fst dc" for job n s dc
    using owned_upd_container [OF that] by (simp add: example_store_collaborators_def)
  have 5: "STranslateDevAnnotations example_store_collaborators = (\<lambda>job a s. s)"
    "STranslateDevTolerations example_store_collaborators = (\<lambda>job ts s. s)"
    "STranslatePodAffinity example_store_collaborators = (\<lambda>job name s. s)"
    "STranslateOktetoVolumes example_store_collaborators = (\<lambda>job rule s. s)"
    "STranslatePodSecurityContext example_store_collaborators = (\<lambda>job sc s. s)"
    "STranslateOktetoDevSecret example_store_collaborators = (\<lambda>job name secrets s. s)"
    "STranslateOktetoInitBinContainer example_store_collaborators = (\<lambda>job s. s)"
    "STranslateOktetoBinVolume example_store_collaborators = (\<lambda>job s. s)"
    by (simp_all add: example_store_collaborators_def)
  show ?thesis
    unfolding helpers_confined_def 5
    using 1 2 3 4 by (intro conjI allI impI confined_id) blast+
qed

lemma web_cells_snapshot: "snapshot web_cells 5 = web"
  by (simp add: snapshot_def snapshot_meta_def web_cells_def job_at_def read_map_def
      read_containers_def read_volumes_def read_tolerations_def web_def web_labels_def Let_def)

lemma web_cells_copy:
  "DeepCopy_refs web_cells 5 =
     Some (11, web_cells @
       [web_cells ! 0, web_cells ! 1, web_cells ! 2, web_cells ! 3, web_cells ! 4,
        JobCell
        \<lparr>RMeta = \<lparr>RName = ''web'', RResourceVersion = ''41'', RLabels = Some 6,
                  RAnnotations = Some 7\<rparr>,
         RSelector = Some 8,
         RTemplateMeta = \<lparr>RName = [], RResourceVersion = [], RLabels = Some 9,
                          RAnnotations = None\<rparr>,
         RContainers = Some 10, RInitContainers = None, RVolumes = None, RTolerations = None,
         RRunAs = None,
         RStatus = \<lparr>Active = 1, Succeeded = 0, Failed = 0, StartTime = Some 1600000000,
                    CompletionTime = None\<rparr>\<rparr>])"
  by (simp add: DeepCopy_refs_def web_cells_def job_refs_def copy_cell_def with_refs_def)

lemma example_refs_run:
  "fst (translate_refs example_store_collaborators 5 web_cells 5 example_translation) = Ok 11"
  "RName (RMeta (job_at (snd (translate_refs example_store_collaborators 5 web_cells 5 example_translation)) 11)) =
     ''okteto-web-5''"
  unfolding translate_refs_def web_cells_copy
  by (simp_all add: translate_refs_init_def
      translate_refs_common_def translate_refs_rule_def append_tolerations_def
      example_store_collaborators_def example_translation_def web_cells_def
      job_at_def upd_job_def map_put_def map_drop_def upd_container_def read_containers_def
      fmt_d_5 Let_def)

text \<open>
  In this store a write through a reference that two objects share reaches both: had the
  copy kept the label map of \<^verbatim>\<open>web\<close>, line 95 would change the snapshot of \<^verbatim>\<open>web\<close>.
\<close>

lemma write_through_shared_reference:
  "snapshot (map_put 0 ''job-name'' ''okteto-web-5'' web_cells) 5 \<noteq> snapshot web_cells 5"
proof
  assume "snapshot (map_put 0 ''job-name'' ''okteto-web-5'' web_cells) 5 = snapshot web_cells 5"
  then have "map_index (Labels (JobMeta (snapshot (map_put 0 ''job-name'' ''okteto-web-5'' web_cells) 5)))
      ''job-name'' = map_index (Labels (JobMeta (snapshot web_cells 5))) ''job-name''"
    by simp
  then show False
    by (simp add: snapshot_def snapshot_meta_def web_cells_def job_at_def read_map_def
        map_put_def map_index_def Let_def)
qed

text \<open>
  Claim C5. On the store with references, with helpers that are confined to the job they
  are handed: \<open>translate\<close> changes no cell that was in the store when it was called,
  whether it returns, fails or panics. So the structural snapshot of the source (whose
  references lie inside the store) is the same before and after. The copy that
  \<^verbatim>\<open>DeepCopy\<close> makes shares no cell with the source, and every write of lines 90 to 126
  goes through the copy.
\<close>

theorem translate_refs_leaves_source:
  assumes "helpers_confined D"
  shows "take (length s) (snd (translate_refs D now s old t)) = s \<and>
         (old < length s \<and> list_all (ref_inside s) (job_refs (job_at s old)) \<longrightarrow>
            snapshot (snd (translate_refs D now s old t)) old = snapshot s old)"
proof -
  have 1: "take (length s) (snd (translate_refs D now s old t)) = s"
    using assms by (rule translate_refs_frame)
  have "snapshot (snd (translate_refs D now s old t)) old = snapshot s old"
    if "old < length s" "list_all (ref_inside s) (job_refs (job_at s old))"
    using 1 that by (rule snapshot_frame)
  with 1 show ?thesis by blast
qed

theorem translate_refs_leaves_source_witness:
  "snapshot (snd (translate_refs example_store_collaborators 5 web_cells 5 example_translation)) 5 = web \<and>
   fst (translate_refs example_store_collaborators 5 web_cells 5 example_translation) = Ok 11 \<and>
   RName (RMeta (job_at (snd (translate_refs example_store_collaborators 5 web_cells 5
     example_translation)) 11)) = ''okteto-web-5''"
proof -
  have i: "(5::nat) < length web_cells \<and> list_all (ref_inside web_cells) (job_refs (job_at web_cells 5))"
    by (simp add: web_cells_def job_at_def job_refs_def ref_inside_def)
  from translate_refs_leaves_source [OF example_helpers_confined, of web_cells 5 5 example_translation] i
  have "snapshot (snd (translate_refs example_store_collaborators 5 web_cells 5 example_translation)) 5 =
      snapshot web_cells 5" by blast
  with web_cells_snapshot example_refs_run show ?thesis by simp
qed

section \<open>The claims about translate, continued\<close>

text \<open>
  Claim C6, as the code has it. Two runs of \<open>translate\<close> on the same source object
  with the same translation, both returning an object, give objects of the same name
  exactly when their Unix times are the same second (the metadata helper leaving the name
  alone): runs at different seconds never collide, a retry within the second does.
\<close>

theorem names_differ_in_time:
  assumes "keeps_name D"
    and "translate D now1 h old t = (Ok a1, h1)"
    and "translate D now2 g old t = (Ok a2, h2)"
    and "g ! old = h ! old"
  shows "Name (JobMeta (h1 ! a1)) = Name (JobMeta (h2 ! a2)) \<longleftrightarrow> now1 = now2"
proof
  assume "Name (JobMeta (h1 ! a1)) = Name (JobMeta (h2 ! a2))"
  with translate_name [OF assms(2) assms(1)] translate_name [OF assms(3) assms(1)] assms(4)
  have "fmt_d now1 = fmt_d now2" by simp
  then show "now1 = now2" by (rule fmt_d_inj)
next
  assume "now1 = now2"
  with translate_name [OF assms(2) assms(1)] translate_name [OF assms(3) assms(1)] assms(4)
  show "Name (JobMeta (h1 ! a1)) = Name (JobMeta (h2 ! a2))" by simp
qed

theorem names_differ_in_time_witness:
  "Name (JobMeta (snd (translate example_collaborators 5 [web] 0 example_translation) ! 1)) \<noteq>
   Name (JobMeta (snd (translate example_collaborators 6 [web] 0 example_translation) ! 1))"
proof -
  from names_differ_in_time [OF example_keeps_name example_translate example_translate, of 5 6]
  show ?thesis by simp
qed

text \<open>
  Claim C6 as worded fails: a second run on the job \<^verbatim>\<open>web\<close>, in the store that the first
  run left and within the same second, returns an object of the same name as the first.
\<close>

theorem same_second_names_collide:
  "fst (translate example_collaborators 5 [web] 0 example_translation) = Ok 1 \<and>
   fst (translate example_collaborators 5
          (snd (translate example_collaborators 5 [web] 0 example_translation)) 0
          example_translation) = Ok 2 \<and>
   Name (JobMeta (snd (translate example_collaborators 5 [web] 0 example_translation) ! 1)) =
     ''okteto-web-5'' \<and>
   Name (JobMeta (snd (translate example_collaborators 5
          (snd (translate example_collaborators 5 [web] 0 example_translation)) 0
          example_translation) ! 2)) = ''okteto-web-5''"
proof -
  let ?h1 = "snd (translate example_collaborators 5 [web] 0 example_translation)"
  obtain h1 where t1: "translate example_collaborators 5 [web] 0 example_translation = (Ok 1, h1)"
    using example_translate_fst [of 5]
    by (cases "translate example_collaborators 5 [web] 0 example_translation") auto
  then have h1: "?h1 = h1" by simp
  from translate_Ok [OF t1] have "h1 = ([web] @ [web])[1 := h1 ! 1]"
    using t1 by (auto simp: translate_def DeepCopy_def split: result.splits)
  then have l: "length h1 = 2" and z: "h1 ! 0 = web"
    by (metis length_list_update length_append list.size(3,4) One_nat_def Suc_1 add.right_neutral add_Suc_right,
        metis nth_list_update_neq append_Cons nth_Cons_0 zero_neq_one)
  have f2: "fst (translate example_collaborators 5 h1 0 example_translation) = Ok 2"
    using example_translate_at [of h1 5] l z by simp
  then obtain h2 where t2: "translate example_collaborators 5 h1 0 example_translation = (Ok 2, h2)"
    by (cases "translate example_collaborators 5 h1 0 example_translation") auto
  from translate_name [OF t2 example_keeps_name] z
  have n2: "Name (JobMeta (h2 ! 2)) = ''okteto-web-5''" by (simp add: fmt_d_5 web_def)
  from example_name h1 have n1: "Name (JobMeta (h1 ! 1)) = ''okteto-web-5''" by simp
  from t1 t2 n1 n2 show ?thesis by simp
qed

text \<open>
  Claim C9. For a source object that exists, \<open>translate\<close> panics on the assignment to a
  nil map exactly when the labels of the object or those of its pod template are nil; it
  returns no error in that case.
\<close>

theorem translate_faults_on_nil_labels:
  assumes "old < length h"
  shows "(Labels (JobMeta (h ! old)) = None \<or>
          Labels (TemplateMeta (Template (Spec (h ! old)))) = None) \<longleftrightarrow>
         fst (translate D now h old t) = Panic NilMapAssign"
proof (cases "translate_init now (h ! old)")
  case (Ok j1)
  then have "\<not> (Labels (JobMeta (h ! old)) = None \<or>
          Labels (TemplateMeta (Template (Spec (h ! old)))) = None)"
    using translate_init_Panic_iff [of now "h ! old" NilMapAssign] by simp
  moreover have "fst (translate D now h old t) \<noteq> Panic NilMapAssign"
    using assms Ok translate_rules_not_Panic [of D t "Rules t" "translate_common D t j1"]
    by (auto simp: translate_def DeepCopy_def nth_append split: result.splits)
  ultimately show ?thesis by simp
next
  case (Err e)
  then show ?thesis by (simp add: translate_init_not_Err)
next
  case (Panic p)
  then have "p = NilMapAssign \<and> (Labels (JobMeta (h ! old)) = None \<or>
          Labels (TemplateMeta (Template (Spec (h ! old)))) = None)"
    by (simp add: translate_init_Panic_iff)
  moreover from this Panic assms have "fst (translate D now h old t) = Panic NilMapAssign"
    by (simp add: translate_def DeepCopy_def nth_append)
  ultimately show ?thesis by simp
qed

theorem translate_faults_on_nil_labels_witness:
  "fst (translate example_collaborators 5 [web_unlabelled] 0 example_translation) = Panic NilMapAssign \<and>
   fst (translate example_collaborators 5 [web] 0 example_translation) \<noteq> Panic NilMapAssign"
proof -
  have 1: "(0::nat) < length [web_unlabelled]" "(0::nat) < length [web]" by simp_all
  have 2: "Labels (JobMeta ([web_unlabelled] ! 0)) = None" by (simp add: web_unlabelled_def)
  have 3: "\<not> (Labels (JobMeta ([web] ! 0)) = None \<or>
          Labels (TemplateMeta (Template (Spec ([web] ! 0)))) = None)"
    by (simp add: web_def web_labels_def)
  from translate_faults_on_nil_labels [OF 1(1), of example_collaborators 5 example_translation]
    translate_faults_on_nil_labels [OF 1(2), of example_collaborators 5 example_translation] 2 3
  show ?thesis by simp
qed

section \<open>The claims about the pipeline\<close>

text \<open>
  Claim C2. The pipeline has resolved the source job \<open>j\<close>, the copy's unique values
  were initialised (\<open>translate_init\<close> returned: both label maps of the source are not
  nil), and the container named by the rule is not found in the pod template as it stands
  when the rule is reached. Then \<open>CreateDevJob\<close> returns the container-not-found error,
  carrying the container's name and the job's, and it has issued no creation call: the
  only call of the run is the resolver's read.
\<close>

theorem missing_container_creates_nothing:
  assumes "get D c job (DevNamespace main) w = (Ok j, w1)"
    and "translate_init now (heap w1 ! j) = Ok j1"
    and "GetDevContainer D
           (TemplateSpec (Template (Spec (translate_common D (job_translation D job main j) j1))))
           (RuleContainer (ToTranslationRule D job main)) = None"
  shows "fst (CreateDevJob D c now job main w) =
           Err (ErrContainerNotFound (RuleContainer (ToTranslationRule D job main))
                  (Name (JobMeta (translate_common D (job_translation D job main j) j1)))) \<and>
         creations (snd (CreateDevJob D c now job main w)) = creations w \<and>
         calls (snd (CreateDevJob D c now job main w)) = calls w1"
proof -
  let ?t = "job_translation D job main j"
  have v: "j < length (heap w1)" using assms(1) by (rule get_Ok_valid)
  have r: "Rules ?t = [ToTranslationRule D job main]" by (simp add: job_translation_def Let_def)
  have "translate_rules D ?t (Rules ?t) (translate_common D ?t j1) =
      Err (ErrContainerNotFound (RuleContainer (ToTranslationRule D job main))
             (Name (JobMeta (translate_common D ?t j1))))"
    using assms(3) by (simp add: r Let_def)
  with v assms(2) have t: "translate D now (heap w1) j ?t =
      (Err (ErrContainerNotFound (RuleContainer (ToTranslationRule D job main))
             (Name (JobMeta (translate_common D ?t j1)))), heap w1 @ [heap w1 ! j])"
    by (simp add: translate_def DeepCopy_def nth_append)
  have 1: "fst (CreateDevJob D c now job main w) =
           Err (ErrContainerNotFound (RuleContainer (ToTranslationRule D job main))
                  (Name (JobMeta (translate_common D ?t j1))))"
    by (simp add: CreateDevJob_def assms(1) t)
  have 2: "calls (snd (CreateDevJob D c now job main w)) = calls w1"
    by (simp add: CreateDevJob_def assms(1) t)
  from 1 have 3: "creations (snd (CreateDevJob D c now job main w)) = creations w"
    by (rule CreateDevJob_creates_only_after_translate)
  from 1 2 3 show ?thesis by blast
qed

theorem missing_container_creates_nothing_witness:
  "fst (CreateDevJob example_collaborators example_client 5 stray_dev main_dev world0) =
     Err (ErrContainerNotFound ''nope'' ''okteto-web-5'') \<and>
   creations (snd (CreateDevJob example_collaborators example_client 5 stray_dev main_dev world0)) = 0 \<and>
   calls (snd (CreateDevJob example_collaborators example_client 5 stray_dev main_dev world0)) =
     [CallGet ''ns1'' ''web'']"
proof -
  let ?w1 = "world0\<lparr>calls := [CallGet ''ns1'' ''web''], heap := [web]\<rparr>"
  let ?t = "job_translation example_collaborators stray_dev main_dev 0"
  have g: "get example_collaborators example_client stray_dev (DevNamespace main_dev) world0 = (Ok 0, ?w1)"
    by (simp add: get_def stray_dev_def job_dev_def main_dev_def map_len0_def example_client_def
        Let_def world0_def)
  obtain j1 where j1: "translate_init 5 web = Ok j1"
    using example_init by (cases "translate_init 5 web") auto
  then have i: "translate_init 5 (heap ?w1 ! 0) = Ok j1" by simp
  have c: "Containers (TemplateSpec (Template (Spec j1))) = Containers (TemplateSpec (Template (Spec web)))"
    using j1 by (auto simp: translate_init_def Let_def map_assign_def split: option.splits)
  have rc: "RuleContainer (ToTranslationRule example_collaborators stray_dev main_dev) = ''nope''"
    by (simp add: example_collaborators_def stray_dev_def)
  have m: "GetDevContainer example_collaborators
           (TemplateSpec (Template (Spec (translate_common example_collaborators ?t j1))))
           (RuleContainer (ToTranslationRule example_collaborators stray_dev main_dev)) = None"
    unfolding rc using c
    by (simp add: translate_common_def Let_def example_collaborators_def web_def split: prod.splits)
  have n: "Name (JobMeta (translate_common example_collaborators ?t j1)) = ''okteto-web-5''"
    using translate_init_Ok(1) [OF j1] example_keeps_name
    by (simp add: translate_common_fields keeps_name_def fmt_d_5 web_def)
  from missing_container_creates_nothing [OF g i m]
  show ?thesis by (simp add: rc n world0_def creations_def)
qed

text \<open>
  Claim C7, as the code has it. \<open>CreateDevJob\<close> (with \<open>get\<close> and \<open>translate\<close>) takes no
  cancellation signal: its result and the calls it issues are the same whether the signal
  has fired or not, and it never returns the cancellation error.
\<close>

theorem pipeline_ignores_cancellation:
  "CreateDevJob D c now job main (w\<lparr>cancelled := b\<rparr>) =
     (fst (CreateDevJob D c now job main w), (snd (CreateDevJob D c now job main w))\<lparr>cancelled := b\<rparr>) \<and>
   fst (CreateDevJob D c now job main w) \<noteq> Err ErrCancelled"
  using CreateDevJob_cancelled CreateDevJob_not_cancelled by blast

text \<open>
  Claim C7 as worded fails: with the signal already fired, the run resolves the job,
  issues one creation call and returns the new name.
\<close>

theorem cancelled_run_still_creates:
  "cancelled (world0\<lparr>cancelled := True\<rparr>) \<and>
   fst (CreateDevJob example_collaborators example_client 5 job_dev main_dev (world0\<lparr>cancelled := True\<rparr>)) =
     Ok ''okteto-web-5'' \<and>
   creations (snd (CreateDevJob example_collaborators example_client 5 job_dev main_dev
     (world0\<lparr>cancelled := True\<rparr>))) = 1"
proof -
  have h: "heap (world0\<lparr>cancelled := True\<rparr>) = []" by (simp add: world0_def)
  have c: "creations (world0\<lparr>cancelled := True\<rparr>) = 0" by (simp add: world0_def creations_def)
  from example_run [OF h] c show ?thesis by simp
qed

section \<open>Properties of the pool\<close>

lemma run_stopped: "stopped p \<Longrightarrow> stopped (run I es p)"
proof (induction es arbitrary: p)
  case Nil
  then show ?case by simp
next
  case (Cons e es)
  then show ?case
    by (cases e)
      (auto simp: keepAlive_select_def keepAlive_send_def stop_flag_def stop_close_def Let_def
        split: Select.splits option.splits intro!: Cons.IH)
qed

lemma stop_close_fields:
  "stopped (stop_close I answer p) = stopped p"
  "sent (stop_close I answer p) = sent p"
  "pc (stop_close I answer p) = pc p"
  by (simp_all add: stop_close_def Let_def split: option.splits)

lemma stop_flag_fields:
  "stopped (stop_flag p)" "sent (stop_flag p) = sent p" "pc (stop_flag p) = pc p"
  by (simp_all add: stop_flag_def)

lemma tick_when_stopped: "stopped p \<Longrightarrow> keepAlive_select TickerC p = p\<lparr>pc := Returned\<rparr>"
  by (simp add: keepAlive_select_def)

lemma select_stopped:
  "stopped p \<Longrightarrow> pc p = Selecting \<Longrightarrow>
     sent (keepAlive_select ev p) = sent p \<and> stopped (keepAlive_select ev p) \<and>
     pc (keepAlive_select ev p) = Returned"
  by (simp add: keepAlive_select_def split: Select.splits option.splits)

lemma run_sent_stopped:
  "stopped p \<Longrightarrow> pc p \<noteq> Sending \<Longrightarrow> sent (run I es p) = sent p"
proof (induction es arbitrary: p)
  case Nil
  then show ?case by simp
next
  case (Cons e es)
  show ?case
  proof (cases e)
    case (Selected ev)
    show ?thesis
    proof (cases "pc p = Selecting")
      case True
      with Cons.prems select_stopped [of p ev]
      have "sent (run I es (keepAlive_select ev p)) = sent (keepAlive_select ev p)"
        by (intro Cons.IH) simp_all
      with True Cons.prems Selected select_stopped [of p ev] show ?thesis by simp
    next
      case False
      with Cons Selected show ?thesis by simp
    qed
  next
    case (Sent answer)
    with Cons show ?thesis by simp
  next
    case StopFlag
    with Cons.prems Cons.IH [of "stop_flag p"] show ?thesis by (simp add: stop_flag_fields)
  next
    case (StopClose answer)
    with Cons.prems Cons.IH [of "stop_close I answer p"] show ?thesis
      by (simp add: stop_close_fields)
  qed
qed

lemma run_sent_pending:
  "stopped p \<Longrightarrow> pc p = Sending \<Longrightarrow>
     sent (run I es p) = sent p \<or> sent (run I es p) = sent p @ [''dev.okteto.com/keepalive'']"
proof (induction es arbitrary: p)
  case Nil
  then show ?case by simp
next
  case (Cons e es)
  show ?case
  proof (cases e)
    case (Selected ev)
    with Cons show ?thesis by simp
  next
    case (Sent answer)
    let ?q = "keepAlive_send answer p"
    have q: "stopped ?q" "pc ?q \<noteq> Sending" "sent ?q = sent p @ [''dev.okteto.com/keepalive'']"
      using Cons.prems by (simp_all add: keepAlive_send_def Let_def split: option.splits)
    from run_sent_stopped [OF q(1) q(2), of I es] q(3) Sent Cons.prems show ?thesis by simp
  next
    case StopFlag
    with Cons.prems Cons.IH [of "stop_flag p"] show ?thesis by (simp add: stop_flag_fields)
  next
    case (StopClose answer)
    with Cons.prems Cons.IH [of "stop_close I answer p"] show ?thesis
      by (simp add: stop_close_fields)
  qed
qed

text \<open>
  Claim C8, as the code has it. Once \<open>stop\<close> has set the flag, whatever the two goroutines
  do next, at most one more request is sent over the pool, and only when \<^verbatim>\<open>keepAlive\<close> had
  tested the flag before it was set and stood before \<^verbatim>\<open>SendRequest\<close>; otherwise none is.
  Every tick that the loop receives from then on ends the loop without sending. And when
  \<^verbatim>\<open>Close\<close> answers with an error that \<open>IsClosedNetwork\<close> accepts, \<open>stop\<close> logs nothing
  and the pool is stopped all the same.
\<close>

theorem keepalive_after_stop:
  "(sent (run I es (stop_flag p)) = sent p \<or>
      pc p = Sending \<and> sent (run I es (stop_flag p)) = sent p @ [''dev.okteto.com/keepalive'']) \<and>
   keepAlive_select TickerC (run I es (stop_flag p)) = (run I es (stop_flag p))\<lparr>pc := Returned\<rparr> \<and>
   (IsClosed err \<longrightarrow>
      logged (stop IsClosed (Some err) p) = logged p \<and> stopped (stop IsClosed (Some err) p))"
proof -
  note f = stop_flag_fields [of p]
  have 1: "sent (run I es (stop_flag p)) = sent p \<or>
      pc p = Sending \<and> sent (run I es (stop_flag p)) = sent p @ [''dev.okteto.com/keepalive'']"
  proof (cases "pc p = Sending")
    case True
    with run_sent_pending [of "stop_flag p" I es] f show ?thesis by simp
  next
    case False
    with run_sent_stopped [of "stop_flag p" I es] f show ?thesis by simp
  qed
  have 2: "keepAlive_select TickerC (run I es (stop_flag p)) = (run I es (stop_flag p))\<lparr>pc := Returned\<rparr>"
    by (rule tick_when_stopped) (rule run_stopped, rule f)
  have 3: "IsClosed err \<longrightarrow>
      logged (stop IsClosed (Some err) p) = logged p \<and> stopped (stop IsClosed (Some err) p)"
    by (simp add: stop_def stop_close_def stop_flag_def)
  from 1 2 3 show ?thesis by blast
qed

theorem keepalive_after_stop_witness:
  "sent (run closed_network
      [StopFlag, StopClose (Some ''use of closed network connection''), Selected TickerC,
       Sent None, Selected TickerC]
      (run closed_network [Selected TickerC, Sent None] started_pool)) = [''dev.okteto.com/keepalive''] \<and>
   pc (keepAlive_select TickerC (stop_flag started_pool)) = Returned \<and>
   logged (stop closed_network (Some ''use of closed network connection'') started_pool) = [] \<and>
   stopped (stop closed_network (Some ''use of closed network connection'') started_pool)"
proof -
  let ?e = "''use of closed network connection''"
  let ?p = "run closed_network [Selected TickerC, Sent None] started_pool"
  have p: "sent ?p = [''dev.okteto.com/keepalive'']" "pc ?p = Selecting"
    by (simp_all add: keepAlive_select_def keepAlive_send_def started_pool_def)
  have c: "closed_network ?e" by (simp add: closed_network_def)
  have l: "logged started_pool = []" by (simp add: started_pool_def)
  from keepalive_after_stop [of closed_network
      "[StopClose (Some ?e), Selected TickerC, Sent None, Selected TickerC]" ?p closed_network ?e]
    keepalive_after_stop [of closed_network "[]" started_pool closed_network ?e] p c l
  show ?thesis by simp
qed

text \<open>
  Claim C8 as worded fails: the loop receives a tick and finds the flag not set, \<open>stop\<close>
  sets the flag, and the request goes out after that, before the client is closed.
\<close>

theorem keepalive_sent_after_stop:
  "stopped (run closed_network [Selected TickerC, StopFlag] started_pool) \<and>
   sent (run closed_network [Selected TickerC, StopFlag] started_pool) = [] \<and>
   sent (run closed_network [Selected TickerC, StopFlag, Sent None, StopClose None] started_pool) =
     [''dev.okteto.com/keepalive'']"
  by (simp add: keepAlive_select_def keepAlive_send_def stop_flag_def stop_close_def started_pool_def)

section \<open>Properties of getConn\<close>

lemma getConn_loop_fail:
  assumes "i \<le> 5" and "\<And>k. i \<le> k \<Longrightarrow> k < 5 \<Longrightarrow> isl (dial addr k)"
  shows "getConn_loop dial addr i lastErr tr =
     ((None, if i = 5 then lastErr else Some (projl (dial addr 4))),
      tr @ concat (replicate (5 - i) [DialTCP addr, TickerWait 100]))"
  using assms
proof (induction dial addr i lastErr tr rule: getConn_loop.induct)
  case (1 dial addr i lastErr tr)
  show ?case
  proof (cases "i < 5")
    case False
    with "1.prems" show ?thesis by (subst getConn_loop.simps) simp
  next
    case True
    with "1.prems" obtain err where e: "dial addr i = Inl err" by (cases "dial addr i") force+
    have "getConn_loop dial addr (i + 1) (Some err) (tr @ [DialTCP addr, TickerWait 100]) =
       ((None, if i + 1 = 5 then Some err else Some (projl (dial addr 4))),
        (tr @ [DialTCP addr, TickerWait 100]) @ concat (replicate (5 - (i + 1)) [DialTCP addr, TickerWait 100]))"
      using True "1.prems" by (intro "1.IH" [OF True e]) simp_all
    moreover have "5 - i = Suc (5 - (i + 1))" using True by simp
    moreover have "i + 1 = 5 \<Longrightarrow> err = projl (dial addr 4)" using e by auto
    ultimately show ?thesis
      using True e by (subst getConn_loop.simps) auto
  qed
qed

lemma getConn_loop_success:
  assumes "i \<le> k" and "k < 5" and "\<not> isl (dial addr k)"
    and "\<And>j. i \<le> j \<Longrightarrow> j < k \<Longrightarrow> isl (dial addr j)"
  shows "getConn_loop dial addr i lastErr tr =
     ((Some (projr (dial addr k)), None),
      tr @ concat (replicate (k - i) [DialTCP addr, TickerWait 100]) @ [DialTCP addr])"
  using assms
proof (induction dial addr i lastErr tr rule: getConn_loop.induct)
  case (1 dial addr i lastErr tr)
  from "1.prems" have i5: "i < 5" by simp
  show ?case
  proof (cases "i = k")
    case True
    with "1.prems" obtain c where "dial addr i = Inr c" by (cases "dial addr i") auto
    with True i5 show ?thesis by (subst getConn_loop.simps) simp
  next
    case False
    with "1.prems" have lt: "i < k" by simp
    with "1.prems" obtain err where e: "dial addr i = Inl err" by (cases "dial addr i") force+
    have "getConn_loop dial addr (i + 1) (Some err) (tr @ [DialTCP addr, TickerWait 100]) =
       ((Some (projr (dial addr k)), None),
        (tr @ [DialTCP addr, TickerWait 100]) @ concat (replicate (k - (i + 1)) [DialTCP addr, TickerWait 100]) @ [DialTCP addr])"
      using lt "1.prems" by (intro "1.IH" [OF i5 e]) simp_all
    moreover have "k - i = Suc (k - (i + 1))" using lt by simp
    ultimately show ?thesis
      using i5 e by (subst getConn_loop.simps) simp
  qed
qed

lemma dials_replicate: "dials (concat (replicate n [DialTCP addr, TickerWait m])) = n"
  by (induction n) (simp_all add: dials_def)

lemma dials_append: "dials (xs @ ys) = dials xs + dials ys"
  by (simp add: dials_def)

lemma getConn_loop_dials:
  "i \<le> 5 \<Longrightarrow> dials (snd (getConn_loop dial addr i lastErr tr)) \<le> dials tr + (5 - i)"
proof (induction dial addr i lastErr tr rule: getConn_loop.induct)
  case (1 dial addr i lastErr tr)
  show ?case
  proof (cases "i < 5")
    case False
    then show ?thesis by (subst getConn_loop.simps) simp
  next
    case True
    show ?thesis
    proof (cases "dial addr i")
      case (Inr c)
      with True show ?thesis by (subst getConn_loop.simps) (simp add: dials_def)
    next
      case (Inl err)
      from "1.IH" [OF True Inl] True
      have "dials (snd (getConn_loop dial addr (i + 1) (Some err) (tr @ [DialTCP addr, TickerWait 100])))
          \<le> dials (tr @ [DialTCP addr, TickerWait 100]) + (5 - (i + 1))" by simp
      with True Inl show ?thesis by (subst getConn_loop.simps) (simp add: dials_def)
    qed
  qed
qed

text \<open>
  Claim C10. \<open>getConn\<close> does not depend on \<open>maxRetries\<close>. It dials at most five times.
  When the \<open>k\<close>-th dial is the first to succeed (\<open>k\<close> below five), it returns that
  connection after \<open>k\<close> failed dials, each followed by a wait on the 100 ms ticker; when
  all five fail, it returns the error of the fifth.
\<close>

theorem getConn_ignores_maxRetries:
  "getConn dial addr m1 = getConn dial addr m2 \<and>
   dials (snd (getConn dial addr m1)) \<le> 5 \<and>
   (\<forall>k<5. (\<forall>i<k. isl (dial addr i)) \<and> \<not> isl (dial addr k) \<longrightarrow>
      getConn dial addr m1 =
        ((Some (projr (dial addr k)), None),
         concat (replicate k [DialTCP addr, TickerWait 100]) @ [DialTCP addr])) \<and>
   ((\<forall>i<5. isl (dial addr i)) \<longrightarrow>
      getConn dial addr m1 =
        ((None, Some (projl (dial addr 4))), concat (replicate 5 [DialTCP addr, TickerWait 100])))"
proof -
  have 1: "getConn dial addr m1 = getConn dial addr m2" by (simp add: getConn_def)
  have 2: "dials (snd (getConn dial addr m1)) \<le> 5"
    using getConn_loop_dials [of 0 dial addr None "[]"] by (simp add: getConn_def dials_def)
  have 3: "getConn dial addr m1 =
        ((Some (projr (dial addr k)), None),
         concat (replicate k [DialTCP addr, TickerWait 100]) @ [DialTCP addr])"
    if "k < 5" "\<forall>i<k. isl (dial addr i)" "\<not> isl (dial addr k)" for k
    using getConn_loop_success [of 0 k dial addr None "[]"] that by (simp add: getConn_def)
  have 4: "getConn dial addr m1 =
        ((None, Some (projl (dial addr 4))), concat (replicate 5 [DialTCP addr, TickerWait 100]))"
    if "\<forall>i<5. isl (dial addr i)"
    using getConn_loop_fail [of 0 dial addr None "[]"] that by (simp add: getConn_def)
  from 1 2 3 4 show ?thesis by blast
qed

theorem getConn_ignores_maxRetries_witness:
  "getConn third_time_dialer ''host:22'' 3 = getConn third_time_dialer ''host:22'' 1 \<and>
   getConn third_time_dialer ''host:22'' 1 =
     ((Some 7, None),
      [DialTCP ''host:22'', TickerWait 100, DialTCP ''host:22'', TickerWait 100, DialTCP ''host:22'']) \<and>
   fst (getConn refusing_dialer ''host:22'' 3) = (None, Some ''refused 4'') \<and>
   dials (snd (getConn refusing_dialer ''host:22'' 3)) = 5"
proof -
  have a: "\<forall>i<2. isl (third_time_dialer ''host:22'' i)" "\<not> isl (third_time_dialer ''host:22'' 2)"
    "projr (third_time_dialer ''host:22'' 2) = 7"
    by (simp_all add: third_time_dialer_def)
  have b: "\<forall>i<5. isl (refusing_dialer ''host:22'' i)" "projl (refusing_dialer ''host:22'' 4) = ''refused 4''"
    by (simp_all add: refusing_dialer_def fmt_d_def digits.simps digit_char_def)
  have r: "replicate 5 x = [x, x, x, x, x]" "replicate 2 x = [x, x]" for x :: "NetAction list"
    by (simp_all add: numeral_eq_Suc)
  note T = getConn_ignores_maxRetries [of third_time_dialer "''host:22''" 3 1]
  note R = getConn_ignores_maxRetries [of refusing_dialer "''host:22''" 3 1]
  from T have t1: "getConn third_time_dialer ''host:22'' 3 = getConn third_time_dialer ''host:22'' 1"
    by (rule conjunct1)
  have t2: "getConn third_time_dialer ''host:22'' 3 =
     ((Some 7, None),
      [DialTCP ''host:22'', TickerWait 100, DialTCP ''host:22'', TickerWait 100, DialTCP ''host:22''])"
    using T [THEN conjunct2, THEN conjunct2, THEN conjunct1, rule_format, of 2] a by (simp add: r)
  have r1: "getConn refusing_dialer ''host:22'' 3 =
     ((None, Some ''refused 4''), concat (replicate 5 [DialTCP ''host:22'', TickerWait 100]))"
    using R [THEN conjunct2, THEN conjunct2, THEN conjunct2, rule_format] b by simp
  have r2: "dials (snd (getConn refusing_dialer ''host:22'' 3)) = 5"
    unfolding r1 by (simp add: r dials_def)
  from t1 t2 r1 r2 show ?thesis by simp
qed

end
